theory Spec2Isabelle
  imports Main
begin

section \<open>Errors\<close>

text \<open>
  The exceptions of \<^verbatim>\<open>torchrl/collectors/distributed/sync.py\<close>, as values.  The three
  \<^verbatim>\<open>RuntimeError\<close>s of the file are told apart by their message.
\<close>

datatype runtime_msg =
    Cannot_dispatch_total_frames
  | Cannot_dispatch_frames_per_batch
  | Single_environment_only

datatype error =
    ZeroDivisionError
  | RuntimeError runtime_msg
  | ImportError
  | NotImplementedError
  | TypeError
  | IndexError
  | UnboundLocalError
  | AttributeError
  | Rendezvous_timeout

section \<open>Tensor containers\<close>

text \<open>
  A \<^verbatim>\<open>TensorDict\<close> is kept by its layout: the batch size, and for every key the shape of
  its tensor (whose leading dimensions are the batch size).  The numeric contents of
  the tensors play no role in the collector's control flow.
\<close>

type_synonym shape = "nat list"

record tensordict =
  batch_size :: shape
  entries :: "(string \<times> shape) list"
  device :: string
  locked :: bool

definition numel :: "tensordict \<Rightarrow> int" where
  \<comment> \<open>\<^verbatim>\<open>TensorDict.numel()\<close>: the number of elements of the batch size, at least 1.\<close>
  "numel td = max 1 (int (prod_list (batch_size td)))"

definition is_empty :: "tensordict \<Rightarrow> bool" where
  "is_empty td = (entries td = [])"

definition keys :: "tensordict \<Rightarrow> string list" where
  "keys td = map fst (entries td)"

definition expand :: "tensordict \<Rightarrow> shape \<Rightarrow> tensordict" where
  \<comment> \<open>\<^verbatim>\<open>td.expand((n, *td.shape))\<close>: the new leading dimensions come in front of every tensor.\<close>
  "expand td sh =
     td\<lparr>batch_size := sh,
        entries := map (\<lambda>(k, s). (k, take (length sh - length (batch_size td)) sh @ s)) (entries td)\<rparr>"

definition to_tensordict :: "tensordict \<Rightarrow> tensordict" where
  "to_tensordict td = td\<lparr>locked := False\<rparr>"

definition to_device :: "tensordict \<Rightarrow> string \<Rightarrow> tensordict" where
  "to_device td d = td\<lparr>device := d\<rparr>"

definition unbind0 :: "tensordict \<Rightarrow> tensordict list" where
  \<comment> \<open>\<^verbatim>\<open>td.unbind(0)\<close>: one view for each index of the first batch dimension.\<close>
  "unbind0 td =
     (case batch_size td of
        [] \<Rightarrow> []
      | n # sh \<Rightarrow> replicate n (td\<lparr>batch_size := sh, entries := map (\<lambda>(k, s). (k, tl s)) (entries td)\<rparr>))"

definition lock :: "tensordict \<Rightarrow> tensordict" where
  "lock td = td\<lparr>locked := True\<rparr>"

definition clone :: "tensordict \<Rightarrow> tensordict" where
  "clone td = td\<lparr>locked := False\<rparr>"

section \<open>External collaborators\<close>

datatype policy =
    Module (named_parameters: "(string \<times> shape) list") (policy_out: "(string \<times> shape) list")
  | Callable (policy_out: "(string \<times> shape) list")

datatype env_make =
    EnvBase "(string \<times> shape) list"
  | EnvCreator "(string \<times> shape) list"
  | Function_env "(string \<times> shape) list"
  | CloudpickleWrapper env_make

fun env_fields :: "env_make \<Rightarrow> (string \<times> shape) list" where
  "env_fields (EnvBase fs) = fs"
| "env_fields (EnvCreator fs) = fs"
| "env_fields (Function_env fs) = fs"
| "env_fields (CloudpickleWrapper e) = env_fields e"

fun wrap_env_make :: "env_make \<Rightarrow> env_make" where
  \<comment> \<open>\<^verbatim>\<open>if not isinstance(env_make, (EnvBase, EnvCreator)): env_make = CloudpickleWrapper(env_make)\<close>\<close>
  "wrap_env_make (EnvBase fs) = EnvBase fs"
| "wrap_env_make (EnvCreator fs) = EnvCreator fs"
| "wrap_env_make e = CloudpickleWrapper e"

datatype collector_class = SyncDataCollector | MultiSyncDataCollector | MultiaSyncDataCollector

datatype collector_arg = Tag string | Class collector_class

fun issubclass_SyncDataCollector :: "collector_arg \<Rightarrow> error + bool" where
  \<comment> \<open>\<^verbatim>\<open>issubclass(collector_class, SyncDataCollector)\<close>; a string that was not resolved to a
     class is not a class.\<close>
  "issubclass_SyncDataCollector (Tag s) = Inl TypeError"
| "issubclass_SyncDataCollector (Class c) = Inr (c = SyncDataCollector)"

definition get_policy_weights :: "policy \<Rightarrow> tensordict" where
  \<comment> \<open>\<^verbatim>\<open>TensorDict(dict(policy.named_parameters()), [])\<close> for a module, \<^verbatim>\<open>TensorDict({}, [])\<close> otherwise.\<close>
  "get_policy_weights p =
     (case p of
        Module ps out \<Rightarrow> \<lparr>batch_size = [], entries = ps, device = ''cpu'', locked = False\<rparr>
      | Callable out \<Rightarrow> \<lparr>batch_size = [], entries = [], device = ''cpu'', locked = False\<rparr>)"

text \<open>
  Modelled from the spec: the single/multi rollout collectors
  (\<^verbatim>\<open>torchrl.collectors.collectors\<close>: \<^verbatim>\<open>SyncDataCollector\<close>, \<^verbatim>\<open>MultiSyncDataCollector\<close>,
  \<^verbatim>\<open>MultiaSyncDataCollector\<close>) are not part of the file.  The spec describes them as a lazy
  sequence of batches bounded by the local frame budget, a batch being a mapping from
  field name to a tensor whose leading dimension is the number of frames of the batch.
\<close>

record rollout_collector =
  rc_env :: env_make
  rc_num_envs :: nat
  rc_policy :: policy
  rc_frames_per_batch :: int
  rc_total_frames :: int

definition rollout_batch :: "env_make \<Rightarrow> policy \<Rightarrow> int \<Rightarrow> tensordict" where
  "rollout_batch e p fpb =
     \<lparr>batch_size = [nat fpb],
      entries = map (\<lambda>(k, s). (k, nat fpb # s)) (env_fields e @ policy_out p),
      device = ''cpu'', locked = False\<rparr>"

definition collector_next :: "rollout_collector \<Rightarrow> int \<Rightarrow> tensordict option" where
  \<comment> \<open>the next batch of the collector when it has produced \<open>frames\<close> frames so far;
     \<open>None\<close> when the frame budget is reached\<close>
  "collector_next c frames =
     (if frames < rc_total_frames c
      then Some (rollout_batch (rc_env c) (rc_policy c) (rc_frames_per_batch c))
      else None)"

section \<open>The worker node\<close>

type_synonym kwargs = "(string \<times> string) list"

record node_args =
  rank :: nat
  rank0_ip :: string
  tcpport :: nat
  world_size :: nat
  node_backend :: string
  node_collector_class :: collector_arg
  node_num_workers :: int
  env_make :: env_make
  node_policy :: policy
  node_frames_per_batch :: int
  node_collector_kwargs :: kwargs
  node_update_interval :: int
  node_total_frames :: int

datatype node_event =
    Node_init_process_group nat nat
  | Irecv_weights string
  | Collect nat
  | Isend_data nat string
  | Collector_shutdown

record node_ctx =
  nc_collector :: rollout_collector
  nc_policy_weights :: tensordict
  nc_update_interval :: int
  nc_total_frames :: int

definition node_setup :: "node_args \<Rightarrow> error + node_ctx" where
  \<comment> \<open>\<^verbatim>\<open>_distributed_init_collection_node\<close> up to \<^verbatim>\<open>init_process_group\<close>\<close>
  "node_setup a =
     (case issubclass_SyncDataCollector (node_collector_class a) of
        Inl e \<Rightarrow> Inl e
      | Inr is_single \<Rightarrow>
          if is_single \<and> node_num_workers a \<noteq> 1 then Inl (RuntimeError Single_environment_only)
          else
            Inr \<lparr>nc_collector =
                   \<lparr>rc_env = env_make a,
                    rc_num_envs = (if is_single then 1 else nat (node_num_workers a)),
                    rc_policy = node_policy a,
                    rc_frames_per_batch = node_frames_per_batch a,
                    rc_total_frames = node_total_frames a\<rparr>,
                 nc_policy_weights = get_policy_weights (node_policy a),
                 nc_update_interval = node_update_interval a,
                 nc_total_frames = node_total_frames a\<rparr>)"

datatype 'a step = Continue 'a | Stop 'a "error option" | Blocked

record node_state =
  ns_i :: nat
  ns_frames :: int
  ns_trace :: "node_event list"

definition node_step :: "node_ctx \<Rightarrow> node_state \<Rightarrow> node_state step" where
  \<comment> \<open>one pass of \<^verbatim>\<open>for i, data in enumerate(collector)\<close>, and what follows the loop when
     the collector is exhausted\<close>
  "node_step c s =
     (case collector_next (nc_collector c) (ns_frames s) of
        None \<Rightarrow> Stop (s\<lparr>ns_trace := ns_trace s @ [Collector_shutdown]\<rparr>) None
      | Some data \<Rightarrow>
          (let tr = ns_trace s @ Collect (ns_i s) # map (Isend_data (ns_i s)) (keys data);
               frames = ns_frames s + numel data;
               s1 = \<lparr>ns_i = ns_i s, ns_frames = frames, ns_trace = tr\<rparr>
           in if frames < nc_total_frames c then
                (if nc_update_interval c = 0 then Stop s1 (Some ZeroDivisionError)
                 else if (int (ns_i s) + 1) mod nc_update_interval c = 0
                          \<and> \<not> is_empty (nc_policy_weights c)
                   then Continue (s1\<lparr>ns_i := ns_i s + 1,
                                     ns_trace := tr @ map Irecv_weights (keys (nc_policy_weights c))\<rparr>)
                   else Continue (s1\<lparr>ns_i := ns_i s + 1\<rparr>))
              else Continue (s1\<lparr>ns_i := ns_i s + 1\<rparr>)))"

partial_function (option) node_loop ::
  "node_ctx \<Rightarrow> node_state \<Rightarrow> (node_state \<times> error option) option" where
  "node_loop c s =
     (case node_step c s of
        Continue s' \<Rightarrow> node_loop c s'
      | Stop s' e \<Rightarrow> Some (s', e)
      | Blocked \<Rightarrow> None)"

declare node_loop.simps [code]

definition distributed_init_collection_node ::
  "node_args \<Rightarrow> (node_state \<times> error option) option" where
  \<comment> \<open>\<^verbatim>\<open>_distributed_init_collection_node\<close>: the events of the worker process in program
     order, and the exception that ended it, if any\<close>
  "distributed_init_collection_node a =
     (case node_setup a of
        Inl e \<Rightarrow> Some (\<lparr>ns_i = 0, ns_frames = 0, ns_trace = []\<rparr>, Some e)
      | Inr c \<Rightarrow>
          node_loop c
            \<lparr>ns_i = 0, ns_frames = 0,
             ns_trace = Node_init_process_group (rank a) (world_size a)
                        # map Irecv_weights (keys (nc_policy_weights c))\<rparr>)"

section \<open>The coordinator\<close>

datatype kwargs_arg = Kwargs_none | Kwargs_dict kwargs | Kwargs_list "kwargs list"

record init_args =
  create_env_fn :: "env_make list"
  arg_policy :: policy
  arg_frames_per_batch :: int
  arg_total_frames :: int
  arg_collector_class :: collector_arg
  arg_collector_kwargs :: kwargs_arg
  arg_num_workers_per_collector :: int
  arg_slurm_kwargs :: "kwargs option"
  arg_backend :: string
  arg_storing_device :: string
  arg_update_after_each_batch :: bool
  arg_max_weight_update_interval :: int
  arg_update_interval :: int
  arg_launcher :: string
  arg_tcp_port :: "nat option"

record job =
  job_launcher :: string
  job_args :: node_args

record collector =
  collector_class :: collector_arg
  env_constructors :: "env_make list"
  policy :: policy
  policy_weights :: tensordict
  num_workers :: int
  frames_per_batch :: int
  storing_device :: string
  update_interval :: int
  total_frames_per_collector :: int
  update_after_each_batch :: bool
  max_weight_update_interval :: int
  launcher :: string
  batches_since_weight_update :: "int list"
  tcp_port :: nat
  frames_per_batch_corrected :: int
  num_workers_per_collector :: int
  total_frames :: int
  slurm_kwargs :: kwargs
  collector_kwargs :: "kwargs list"
  backend :: string
  IPAddr :: string
  jobs :: "job list"
  tensordict_out :: "tensordict option"
  single_tds :: "tensordict list"

datatype event =
    Set_environ string
  | Executor_created
  | Submit_job nat
  | Start_process nat
  | Init_process_group nat nat
  | Probe_rollout
  | Buffer_locked
  | Probe_shutdown
  | Isend_weights nat string
  | Irecv_data nat nat string
  | Wait_data nat string

datatype proc_state = Running | Exited

text \<open>
  What the constructor reads from and writes to outside the object: whether
  \<^verbatim>\<open>import submitit\<close> succeeded, the \<^verbatim>\<open>TCP_PORT\<close> variable (as a number), the host's
  address, the worker processes or jobs launched so far, and the ordered record of the
  side effects.
\<close>

record world =
  has_submitit :: bool
  environ_TCP_PORT :: "nat option"
  host_ip :: string
  procs :: "(nat \<times> proc_state) list"
  events :: "event list"

definition DEFAULT_SLURM_CONF :: kwargs where
  "DEFAULT_SLURM_CONF =
     [(''timeout_min'', ''10''), (''slurm_partition'', ''train''),
      (''slurm_cpus_per_task'', ''32''), (''slurm_gpus_per_node'', ''0'')]"

definition resolve_collector_class :: "collector_arg \<Rightarrow> collector_arg" where
  "resolve_collector_class c =
     (if c = Tag ''async'' then Class MultiaSyncDataCollector
      else if c = Tag ''sync'' then Class MultiSyncDataCollector
      else if c = Tag ''single'' then Class SyncDataCollector
      else c)"

definition init_fields :: "init_args \<Rightarrow> world \<Rightarrow> error + collector" where
  \<comment> \<open>\<^verbatim>\<open>__init__\<close> up to the call of \<^verbatim>\<open>_init_workers\<close>\<close>
  "init_fields a w =
     (let nw = int (length (create_env_fn a)) in
      if nw = 0 then Inl ZeroDivisionError
      else if (arg_total_frames a div nw) * nw \<noteq> arg_total_frames a
        then Inl (RuntimeError Cannot_dispatch_total_frames)
      else if arg_frames_per_batch a mod nw \<noteq> 0
        then Inl (RuntimeError Cannot_dispatch_frames_per_batch)
      else
        Inr \<lparr>collector_class = resolve_collector_class (arg_collector_class a),
             env_constructors = create_env_fn a,
             policy = arg_policy a,
             policy_weights = get_policy_weights (arg_policy a),
             num_workers = nw,
             frames_per_batch = arg_frames_per_batch a,
             storing_device = arg_storing_device a,
             update_interval = arg_update_interval a,
             total_frames_per_collector = arg_total_frames a div nw,
             update_after_each_batch = arg_update_after_each_batch a,
             max_weight_update_interval = arg_max_weight_update_interval a,
             launcher = arg_launcher a,
             batches_since_weight_update = map (\<lambda>_. 0) [0..<nat nw],
             tcp_port =
               (case arg_tcp_port a of
                  None \<Rightarrow> (case environ_TCP_PORT w of None \<Rightarrow> 10003 | Some p \<Rightarrow> p)
                | Some p \<Rightarrow> p),
             frames_per_batch_corrected = arg_frames_per_batch a div nw,
             num_workers_per_collector = arg_num_workers_per_collector a,
             total_frames = arg_total_frames a,
             slurm_kwargs =
               (case arg_slurm_kwargs a of None \<Rightarrow> DEFAULT_SLURM_CONF | Some k \<Rightarrow> k),
             collector_kwargs =
               (case arg_collector_kwargs a of
                  Kwargs_none \<Rightarrow> replicate (nat nw) []
                | Kwargs_dict k \<Rightarrow> replicate (nat nw) k
                | Kwargs_list ks \<Rightarrow> ks),
             backend = arg_backend a,
             IPAddr = [],
             jobs = [],
             tensordict_out = None,
             single_tds = []\<rparr>)"

definition worker_args :: "collector \<Rightarrow> nat \<Rightarrow> error + node_args" where
  \<comment> \<open>the argument tuple built by \<^verbatim>\<open>_init_worker_dist_submitit\<close> and \<^verbatim>\<open>_init_worker_dist_mp\<close>\<close>
  "worker_args self i =
     (if length (env_constructors self) \<le> i then Inl IndexError
      else if length (collector_kwargs self) \<le> i then Inl IndexError
      else
        Inr \<lparr>rank = i + 1,
             rank0_ip = IPAddr self,
             tcpport = tcp_port self,
             world_size = nat (num_workers self + 1),
             node_backend = backend self,
             node_collector_class = collector_class self,
             node_num_workers = num_workers_per_collector self,
             env_make = wrap_env_make (env_constructors self ! i),
             node_policy = policy self,
             node_frames_per_batch = frames_per_batch_corrected self,
             node_collector_kwargs = collector_kwargs self ! i,
             node_update_interval = update_interval self,
             node_total_frames = total_frames_per_collector self\<rparr>)"

definition launch_event :: "string \<Rightarrow> nat \<Rightarrow> event" where
  \<comment> \<open>\<^verbatim>\<open>executor.submit(...)\<close> for the cluster launcher, \<^verbatim>\<open>mp.Process(...).start()\<close> otherwise\<close>
  "launch_event l i = (if l = ''submitit'' then Submit_job (i + 1) else Start_process (i + 1))"

fun launch_workers :: "collector \<Rightarrow> world \<Rightarrow> nat list \<Rightarrow> (error + collector) \<times> world" where
  \<comment> \<open>the \<^verbatim>\<open>for i in range(self.num_workers)\<close> loop of \<^verbatim>\<open>_init_workers\<close>\<close>
  "launch_workers self w [] = (Inr self, w)"
| "launch_workers self w (i # is) =
     (if launcher self = ''submitit'' \<or> launcher self = ''mp'' then
        (case worker_args self i of
           Inl e \<Rightarrow> (Inl e, w)
         | Inr a \<Rightarrow>
             launch_workers
               (self\<lparr>jobs := jobs self @ [\<lparr>job_launcher = launcher self, job_args = a\<rparr>]\<rparr>)
               (w\<lparr>procs := procs w @ [(i + 1, Running)],
                  events := events w @ [launch_event (launcher self) i]\<rparr>)
               is)
      else (Inl UnboundLocalError, w))"

definition init_master_dist :: "collector \<Rightarrow> world \<Rightarrow> (error + collector) \<times> world" where
  \<comment> \<open>\<^verbatim>\<open>_init_master_dist\<close>: the rendezvous completes when every worker reaches its own
     \<^verbatim>\<open>init_process_group\<close>; a worker that raised before it has exited, and the
     handshake then fails at its timeout\<close>
  "init_master_dist self w =
     (let failed = map (rank \<circ> job_args) (filter (\<lambda>jb. isl (node_setup (job_args jb))) (jobs self));
          w' = w\<lparr>procs := map (\<lambda>(r, st). if r \<in> set failed then (r, Exited) else (r, st)) (procs w)\<rparr>
      in if failed = []
         then (Inr self, w'\<lparr>events := events w' @ [Init_process_group 0 (nat (num_workers self + 1))]\<rparr>)
         else (Inl Rendezvous_timeout, w'))"

definition init_workers :: "collector \<Rightarrow> world \<Rightarrow> (error + collector) \<times> world" where
  "init_workers self w =
     (let self1 = self\<lparr>IPAddr := host_ip w\<rparr>;
          w1 = w\<lparr>events := events w @ [Set_environ ''MASTER_ADDR'', Set_environ ''MASTER_PORT'']\<rparr>;
          self2 = self1\<lparr>jobs := []\<rparr>
      in if launcher self2 = ''submitit'' \<and> \<not> has_submitit w1 then (Inl ImportError, w1)
         else
           (let w2 = (if launcher self2 = ''submitit''
                      then w1\<lparr>events := events w1 @ [Executor_created]\<rparr> else w1)
            in case launch_workers self2 w2 [0..<nat (num_workers self2)] of
                 (Inl e, w3) \<Rightarrow> (Inl e, w3)
               | (Inr self3, w3) \<Rightarrow> init_master_dist self3 w3))"

definition make_container :: "collector \<Rightarrow> world \<Rightarrow> (error + collector) \<times> world" where
  "make_container self w =
     (case env_constructors self of
        [] \<Rightarrow> (Inl IndexError, w)
      | env_constructor # _ \<Rightarrow>
          (let pseudo_collector =
                 \<lparr>rc_env = env_constructor, rc_num_envs = 1, rc_policy = policy self,
                  rc_frames_per_batch = frames_per_batch_corrected self,
                  rc_total_frames = total_frames self\<rparr>;
               w1 = w\<lparr>events := events w @ [Probe_rollout]\<rparr>
           in case issubclass_SyncDataCollector (collector_class self) of
                Inl e \<Rightarrow> (Inl e, w1)
              | Inr _ \<Rightarrow>
                  (case collector_next pseudo_collector 0 of
                     None \<Rightarrow> (Inl UnboundLocalError, w1)
                   | Some data \<Rightarrow>
                       (let out = to_device
                              (to_tensordict
                                 (expand data (nat (num_workers self) # batch_size data)))
                              (storing_device self)
                        in (Inr (self\<lparr>tensordict_out := Some (lock out),
                                      single_tds := unbind0 out\<rparr>),
                            w1\<lparr>events := events w1 @ [Buffer_locked, Probe_shutdown]\<rparr>)))))"

definition DistributedSyncDataCollector_init ::
  "init_args \<Rightarrow> world \<Rightarrow> (error + collector) \<times> world" where
  "DistributedSyncDataCollector_init a w =
     (case init_fields a w of
        Inl e \<Rightarrow> (Inl e, w)
      | Inr self \<Rightarrow>
          (case init_workers self w of
             (Inl e, w1) \<Rightarrow> (Inl e, w1)
           | (Inr self1, w1) \<Rightarrow> make_container self1 w1))"

subsection \<open>The iteration protocol\<close>

text \<open>
  The generator \<^verbatim>\<open>_iterator_dist\<close> run to exhaustion.  A round is what the caller sees at one
  \<^verbatim>\<open>yield\<close>: the round counter \<^verbatim>\<open>j\<close>, the transport calls of the round in program order,
  the yielded copy of the buffer, the running frame counter, and the value that
  \<^verbatim>\<open>self._batches_since_weight_update\<close> has at that moment.
\<close>

record round =
  round_j :: int
  round_events :: "event list"
  round_data :: tensordict
  round_total_frames :: int
  round_batches_since_weight_update :: "int list"

record iter_state =
  it_total_frames :: int
  it_j :: int
  it_yielded :: "round list"

definition delivered :: "collector \<Rightarrow> nat \<Rightarrow> nat \<Rightarrow> bool" where
  \<comment> \<open>the worker launched for slot \<open>i\<close> sends a batch number \<open>j\<close>: the transfers that the
     coordinator waits for in round \<open>j\<close> complete\<close>
  "delivered self j i =
     (i < length (jobs self) \<and>
      (case distributed_init_collection_node (job_args (jobs self ! i)) of
         None \<Rightarrow> False
       | Some (s, e) \<Rightarrow> Collect j \<in> set (ns_trace s)))"

definition broadcast_events :: "collector \<Rightarrow> event list" where
  \<comment> \<open>\<^verbatim>\<open>for i in range(self.num_workers): self.policy_weights.isend(i + 1)\<close>: one message
     for each parameter and each worker rank\<close>
  "broadcast_events self =
     concat (map (\<lambda>i. map (Isend_weights (i + 1)) (keys (policy_weights self)))
               [0..<nat (num_workers self)])"

definition receive_events :: "collector \<Rightarrow> event list" where
  \<comment> \<open>the receives posted into the slices \<^verbatim>\<open>self._single_tds[i]\<close> from rank \<open>i + 1\<close>, then the
     wait on every pending transfer\<close>
  "receive_events self =
     concat (map (\<lambda>i. map (Irecv_data i (i + 1)) (keys (single_tds self ! i)))
               [0..<nat (num_workers self)])
     @ concat (map (\<lambda>i. map (Wait_data i) (keys (single_tds self ! i)))
                 [0..<nat (num_workers self)])"

definition gather :: "collector \<Rightarrow> nat \<Rightarrow> (error + event list) option" where
  \<comment> \<open>the two \<^verbatim>\<open>trackers\<close> loops of \<^verbatim>\<open>_iterator_dist\<close>; \<open>None\<close> when a wait never returns\<close>
  "gather self j =
     (if length (single_tds self) < nat (num_workers self) then Some (Inl AttributeError)
      else if list_all (\<lambda>i. keys (single_tds self ! i) = [] \<or> delivered self j i)
                [0..<nat (num_workers self)]
        then Some (Inr (receive_events self))
        else None)"

definition iterator_step :: "collector \<Rightarrow> iter_state \<Rightarrow> iter_state step" where
  \<comment> \<open>the test and one pass of \<^verbatim>\<open>while total_frames < self.total_frames\<close>\<close>
  "iterator_step self s =
     (if it_total_frames s < total_frames self then
        (let j = it_j s + 1;
             s1 = s\<lparr>it_j := j\<rparr>
         in if update_interval self = 0 then Stop s1 (Some ZeroDivisionError)
            else
              (let sends = (if j mod update_interval self = 0 then broadcast_events self else [])
               in case gather self (nat j) of
                    None \<Rightarrow> Blocked
                  | Some (Inl e) \<Rightarrow> Stop s1 (Some e)
                  | Some (Inr receives) \<Rightarrow>
                      (case tensordict_out self of
                         None \<Rightarrow> Stop s1 (Some AttributeError)
                       | Some out \<Rightarrow>
                           (let data = clone out;
                                total = it_total_frames s + numel data
                            in Continue
                                 \<lparr>it_total_frames = total, it_j = j,
                                  it_yielded = it_yielded s @
                                    [\<lparr>round_j = j, round_events = sends @ receives,
                                      round_data = data, round_total_frames = total,
                                      round_batches_since_weight_update =
                                        batches_since_weight_update self\<rparr>]\<rparr>))))
      else Stop s None)"

partial_function (option) iterator_dist ::
  "collector \<Rightarrow> iter_state \<Rightarrow> (iter_state \<times> error option) option" where
  "iterator_dist self s =
     (case iterator_step self s of
        Continue s' \<Rightarrow> iterator_dist self s'
      | Stop s' e \<Rightarrow> Some (s', e)
      | Blocked \<Rightarrow> None)"

declare iterator_dist.simps [code]

definition iterator :: "collector \<Rightarrow> (iter_state \<times> error option) option" where
  "iterator self = iterator_dist self \<lparr>it_total_frames = 0, it_j = - 1, it_yielded = []\<rparr>"

subsection \<open>Operations that the collector does not support\<close>

definition update_policy_weights' :: "collector \<Rightarrow> nat option \<Rightarrow> error + unit" where
  "update_policy_weights' self worker_rank = Inl NotImplementedError"

definition set_seed :: "collector \<Rightarrow> int \<Rightarrow> bool \<Rightarrow> error + int" where
  "set_seed self seed static_seed = Inl NotImplementedError"

definition state_dict :: "collector \<Rightarrow> error + (string \<times> string) list" where
  "state_dict self = Inl NotImplementedError"

definition load_state_dict :: "collector \<Rightarrow> (string \<times> string) list \<Rightarrow> error + unit" where
  "load_state_dict self sd = Inl NotImplementedError"

definition shutdown :: "collector \<Rightarrow> world \<Rightarrow> (error + unit) \<times> collector \<times> world" where
  \<comment> \<open>\<^verbatim>\<open>def shutdown(self): pass\<close>\<close>
  "shutdown self w = (Inr (), self, w)"


section \<open>Closed forms used in the statements\<close>

definition mk_job :: "collector \<Rightarrow> nat \<Rightarrow> job" where
  "mk_job self i = \<lparr>job_launcher = launcher self, job_args = projr (worker_args self i)\<rparr>"

definition launch_log :: "string \<Rightarrow> nat \<Rightarrow> event list" where
  "launch_log l n =
     [Set_environ ''MASTER_ADDR'', Set_environ ''MASTER_PORT'']
     @ (if l = ''submitit'' then [Executor_created] else [])
     @ map (launch_event l) [0..<n]
     @ [Init_process_group 0 (n + 1)]"

definition probe_batch :: "collector \<Rightarrow> tensordict" where
  "probe_batch self =
     rollout_batch (hd (env_constructors self)) (policy self) (frames_per_batch_corrected self)"

definition buffer_of :: "collector \<Rightarrow> tensordict" where
  "buffer_of self =
     to_device (to_tensordict
        (expand (probe_batch self) (nat (num_workers self) # batch_size (probe_batch self))))
        (storing_device self)"

section \<open>Example configurations\<close>

definition example_world :: world where
  "example_world =
     \<lparr>has_submitit = False, environ_TCP_PORT = None, host_ip = ''10.0.0.1'',
      procs = [], events = []\<rparr>"

definition example_args :: init_args where
  \<comment> \<open>two workers on one machine, 16 frames in batches of 4, weights sent every second round\<close>
  "example_args =
     \<lparr>create_env_fn = [Function_env [(''observation'', [3])], EnvCreator [(''observation'', [3])]],
      arg_policy = Module [(''weight'', [1, 3])] [(''action'', [1])],
      arg_frames_per_batch = 4,
      arg_total_frames = 16,
      arg_collector_class = Tag ''single'',
      arg_collector_kwargs = Kwargs_none,
      arg_num_workers_per_collector = 1,
      arg_slurm_kwargs = None,
      arg_backend = ''gloo'',
      arg_storing_device = ''cpu'',
      arg_update_after_each_batch = False,
      arg_max_weight_update_interval = - 1,
      arg_update_interval = 2,
      arg_launcher = ''mp'',
      arg_tcp_port = None\<rparr>"

definition three_envs :: "env_make list" where
  "three_envs = replicate 3 (EnvCreator [(''observation'', [3])])"

definition four_envs :: "env_make list" where
  "four_envs = replicate 4 (EnvCreator [(''observation'', [3])])"

definition is_launch :: "event \<Rightarrow> bool" where
  "is_launch ev = (case ev of Submit_job r \<Rightarrow> True | Start_process r \<Rightarrow> True | _ \<Rightarrow> False)"

definition is_rendezvous :: "event \<Rightarrow> bool" where
  "is_rendezvous ev = (case ev of Init_process_group r n \<Rightarrow> True | _ \<Rightarrow> False)"

definition is_probe :: "event \<Rightarrow> bool" where
  "is_probe ev = (ev = Probe_rollout)"

text \<open>\<open>all_before P Q xs\<close>: no element with \<open>P\<close> comes after an element with \<open>Q\<close>.\<close>

fun all_before :: "('a \<Rightarrow> bool) \<Rightarrow> ('a \<Rightarrow> bool) \<Rightarrow> 'a list \<Rightarrow> bool" where
  "all_before P Q [] = True"
| "all_before P Q (x # xs) = ((Q x \<longrightarrow> \<not> list_ex P xs) \<and> all_before P Q xs)"

text \<open>The side effects that a call added to the record of the world.\<close>

definition new_events :: "world \<Rightarrow> world \<Rightarrow> event list" where
  "new_events w w' = drop (length (events w)) (events w')"

text \<open>
  \<^verbatim>\<open>is_alive()\<close> of the launcher handle of the worker of a rank: true from the launch until
  the worker process exits.
\<close>

definition is_alive :: "world \<Rightarrow> nat \<Rightarrow> bool" where
  "is_alive w r = ((r, Running) \<in> set (procs w))"

definition shutdown_twice :: "collector \<Rightarrow> world \<Rightarrow> (error + unit) \<times> collector \<times> world" where
  "shutdown_twice self w =
     (case shutdown self w of
        (Inl e, self1, w1) \<Rightarrow> (Inl e, self1, w1)
      | (Inr u, self1, w1) \<Rightarrow> shutdown self1 w1)"

definition example_collector :: collector where
  "example_collector =
     \<lparr>collector_class = Class SyncDataCollector,
      env_constructors =
        [Function_env [(''observation'', [3])], EnvCreator [(''observation'', [3])]],
      policy = Module [(''weight'', [1, 3])] [(''action'', [1])],
      policy_weights =
        \<lparr>batch_size = [], entries = [(''weight'', [1, 3])], device = ''cpu'', locked = False\<rparr>,
      num_workers = 2, frames_per_batch = 4, storing_device = ''cpu'',
      update_interval = 2, total_frames_per_collector = 8,
      update_after_each_batch = False, max_weight_update_interval = - 1,
      launcher = ''mp'', batches_since_weight_update = [0, 0],
      tcp_port = 10003, frames_per_batch_corrected = 2,
      num_workers_per_collector = 1, total_frames = 16,
      slurm_kwargs = DEFAULT_SLURM_CONF,
      collector_kwargs = [[], []], backend = ''gloo'',
      IPAddr = ''10.0.0.1'',
      jobs =
        [\<lparr>job_launcher = ''mp'',
          job_args =
            \<lparr>rank = 1, rank0_ip = ''10.0.0.1'', tcpport = 10003,
             world_size = 3, node_backend = ''gloo'',
             node_collector_class = Class SyncDataCollector,
             node_num_workers = 1,
             env_make = CloudpickleWrapper (Function_env [(''observation'', [3])]),
             node_policy = Module [(''weight'', [1, 3])] [(''action'', [1])],
             node_frames_per_batch = 2, node_collector_kwargs = [],
             node_update_interval = 2, node_total_frames = 8\<rparr>\<rparr>,
         \<lparr>job_launcher = ''mp'',
          job_args =
            \<lparr>rank = 2, rank0_ip = ''10.0.0.1'', tcpport = 10003,
             world_size = 3, node_backend = ''gloo'',
             node_collector_class = Class SyncDataCollector,
             node_num_workers = 1,
             env_make = EnvCreator [(''observation'', [3])],
             node_policy = Module [(''weight'', [1, 3])] [(''action'', [1])],
             node_frames_per_batch = 2, node_collector_kwargs = [],
             node_update_interval = 2, node_total_frames = 8\<rparr>\<rparr>],
      tensordict_out =
        Some \<lparr>batch_size = [2, 2],
              entries = [(''observation'', [2, 2, 3]), (''action'', [2, 2, 1])],
              device = ''cpu'', locked = True\<rparr>,
      single_tds =
        [\<lparr>batch_size = [2], entries = [(''observation'', [2, 3]), (''action'', [2, 1])],
          device = ''cpu'', locked = False\<rparr>,
         \<lparr>batch_size = [2], entries = [(''observation'', [2, 3]), (''action'', [2, 1])],
          device = ''cpu'', locked = False\<rparr>]\<rparr>"

definition example_world_after :: world where
  "example_world_after =
     \<lparr>has_submitit = False, environ_TCP_PORT = None, host_ip = ''10.0.0.1'',
      procs = [(1, Running), (2, Running)],
      events =
        [Set_environ ''MASTER_ADDR'', Set_environ ''MASTER_PORT'',
         Start_process 1, Start_process 2, Init_process_group 0 3,
         Probe_rollout, Buffer_locked, Probe_shutdown]\<rparr>"

definition submitit_args :: init_args where
  \<comment> \<open>the example, with the cluster-job launcher requested\<close>
  "submitit_args = example_args\<lparr>arg_launcher := ''submitit''\<rparr>"

definition two_subenvs_args :: init_args where
  \<comment> \<open>the example (single-environment collectors) with two sub-environments per collector\<close>
  "two_subenvs_args = example_args\<lparr>arg_num_workers_per_collector := 2\<rparr>"

text \<open>
  What the worker is expected to do around its batch number \<open>N\<close>: when \<open>N\<close> is a multiple
  of the update interval, one receive for each parameter, then the production of the
  batch, then one send for each of its fields.
\<close>

definition node_batch :: "node_ctx \<Rightarrow> tensordict" where
  "node_batch c =
     rollout_batch (rc_env (nc_collector c)) (rc_policy (nc_collector c))
       (rc_frames_per_batch (nc_collector c))"

definition node_round_events :: "node_ctx \<Rightarrow> nat \<Rightarrow> node_event list" where
  "node_round_events c N =
     (if int N mod nc_update_interval c = 0
      then map Irecv_weights (keys (nc_policy_weights c)) else [])
     @ Collect N # map (Isend_data N) (keys (node_batch c))"

text \<open>
  What the caller is expected to see at round \<open>N\<close> of the iteration: when \<open>N\<close> is a
  multiple of the update interval, the parameters sent once to every worker rank; then the
  receives of the round; the copy of the buffer; the running total.
\<close>

definition expected_round :: "collector \<Rightarrow> nat \<Rightarrow> round" where
  "expected_round self N =
     \<lparr>round_j = int N,
      round_events =
        (if int N mod update_interval self = 0 then broadcast_events self else [])
        @ receive_events self,
      round_data = clone (the (tensordict_out self)),
      round_total_frames = (int N + 1) * numel (the (tensordict_out self)),
      round_batches_since_weight_update = batches_since_weight_update self\<rparr>"

text \<open>
  The layout that the shape probe gives to the output buffer: the batch of one rollout of
  the given environment constructor with the policy, expanded along a new leading
  dimension of the number of workers.
\<close>

definition buffer_layout :: "env_make \<Rightarrow> policy \<Rightarrow> nat \<Rightarrow> int \<Rightarrow> string \<Rightarrow> tensordict" where
  "buffer_layout e p nw fpw dev =
     \<lparr>batch_size = [nw, nat fpw],
      entries = map (\<lambda>(k, s). (k, nw # nat fpw # s)) (env_fields e @ policy_out p),
      device = dev, locked = False\<rparr>"

text \<open>
  The staleness of the spec's glossary, read off the rounds that have been completed: the
  number of rounds completed after the last round that carried a parameter broadcast.
\<close>

definition rounds_since_broadcast :: "int \<Rightarrow> round list \<Rightarrow> nat" where
  "rounds_since_broadcast ui rs = length (takeWhile (\<lambda>r. round_j r mod ui \<noteq> 0) (rev rs))"

text \<open>What every yielded round has, whatever the number of rounds.\<close>

definition round_ok :: "collector \<Rightarrow> round \<Rightarrow> bool" where
  "round_ok self r =
     (round_batches_since_weight_update r = batches_since_weight_update self
      \<and> round_data r = clone (the (tensordict_out self))
      \<and> (round_events r = receive_events self
         \<or> round_events r = broadcast_events self @ receive_events self))"

section \<open>Construction: the frame-count checks\<close>

lemma div_mult_eq_iff_mod: "(t div n) * n = t \<longleftrightarrow> t mod n = 0" for t n :: int
proof -
  have "t div n * n + t mod n = t" by simp
  then show ?thesis by linarith
qed

lemma launch_workers_errors:
  "launch_workers self w is = (Inl e, w') \<Longrightarrow> e = IndexError \<or> e = UnboundLocalError"
proof (induction "is" arbitrary: self w)
  case Nil
  then show ?case by simp
next
  case (Cons i "is")
  then show ?case
    by (auto simp: worker_args_def split: if_splits sum.splits)
qed

lemma init_master_dist_errors:
  "init_master_dist self w = (Inl e, w') \<Longrightarrow> e = Rendezvous_timeout"
  by (auto simp: init_master_dist_def Let_def split: if_splits)

lemma init_workers_errors:
  "init_workers self w = (Inl e, w') \<Longrightarrow>
     e = ImportError \<or> e = IndexError \<or> e = UnboundLocalError \<or> e = Rendezvous_timeout"
  unfolding init_workers_def Let_def
  by (auto split: if_splits prod.splits sum.splits
           dest: launch_workers_errors init_master_dist_errors)

lemma make_container_errors:
  "make_container self w = (Inl e, w') \<Longrightarrow>
     e = IndexError \<or> e = TypeError \<or> e = UnboundLocalError"
  unfolding make_container_def Let_def
  by (cases "collector_class self")
     (auto split: list.splits option.splits sum.splits)

lemma init_errors_after_checks:
  assumes "init_fields a w = Inr self"
    and "DistributedSyncDataCollector_init a w = (Inl e, w')"
  shows "e = ImportError \<or> e = IndexError \<or> e = UnboundLocalError
         \<or> e = Rendezvous_timeout \<or> e = TypeError"
proof (cases "init_workers self w")
  case (Pair r w1)
  show ?thesis
  proof (cases r)
    case (Inl e1)
    with Pair assms have "e = e1" by (simp add: DistributedSyncDataCollector_init_def)
    with Pair Inl init_workers_errors show ?thesis by blast
  next
    case (Inr self1)
    with Pair assms have "make_container self1 w1 = (Inl e, w')"
      by (simp add: DistributedSyncDataCollector_init_def)
    then show ?thesis using make_container_errors by blast
  qed
qed

text \<open>
  C2. Construction raises the \<^verbatim>\<open>RuntimeError\<close> "Cannot dispatch ... frames" when
  \<^verbatim>\<open>total_frames\<close> is not a multiple of the number of workers, and (the first check
  having passed) the \<^verbatim>\<open>RuntimeError\<close> about frames per batch when \<^verbatim>\<open>frames_per_batch\<close> is not
  a multiple of it; when both are multiples, neither of the two errors is raised.  The
  number of workers is the length of the list of environment constructors, which is
  taken to be non-empty: divisibility by zero workers is not defined (the code raises
  \<^verbatim>\<open>ZeroDivisionError\<close> there).
\<close>

theorem init_frame_count_checks:
  assumes "create_env_fn a \<noteq> []"
  shows "(arg_total_frames a mod int (length (create_env_fn a)) \<noteq> 0 \<longrightarrow>
            DistributedSyncDataCollector_init a w
              = (Inl (RuntimeError Cannot_dispatch_total_frames), w))
       \<and> (arg_total_frames a mod int (length (create_env_fn a)) = 0 \<and>
          arg_frames_per_batch a mod int (length (create_env_fn a)) \<noteq> 0 \<longrightarrow>
            DistributedSyncDataCollector_init a w
              = (Inl (RuntimeError Cannot_dispatch_frames_per_batch), w))
       \<and> (arg_total_frames a mod int (length (create_env_fn a)) = 0 \<and>
          arg_frames_per_batch a mod int (length (create_env_fn a)) = 0 \<longrightarrow>
            fst (DistributedSyncDataCollector_init a w)
              \<noteq> Inl (RuntimeError Cannot_dispatch_total_frames) \<and>
            fst (DistributedSyncDataCollector_init a w)
              \<noteq> Inl (RuntimeError Cannot_dispatch_frames_per_batch))"
proof (intro conjI impI)
  assume "arg_total_frames a mod int (length (create_env_fn a)) \<noteq> 0"
  with assms show "DistributedSyncDataCollector_init a w
      = (Inl (RuntimeError Cannot_dispatch_total_frames), w)"
    by (simp add: DistributedSyncDataCollector_init_def init_fields_def Let_def
                  div_mult_eq_iff_mod)
next
  assume "arg_total_frames a mod int (length (create_env_fn a)) = 0 \<and>
          arg_frames_per_batch a mod int (length (create_env_fn a)) \<noteq> 0"
  with assms show "DistributedSyncDataCollector_init a w
      = (Inl (RuntimeError Cannot_dispatch_frames_per_batch), w)"
    by (simp add: DistributedSyncDataCollector_init_def init_fields_def Let_def
                  div_mult_eq_iff_mod)
next
  assume ok: "arg_total_frames a mod int (length (create_env_fn a)) = 0 \<and>
          arg_frames_per_batch a mod int (length (create_env_fn a)) = 0"
  with assms obtain self where f: "init_fields a w = Inr self"
    by (simp add: init_fields_def Let_def div_mult_eq_iff_mod)
  obtain r w' where r: "DistributedSyncDataCollector_init a w = (r, w')"
    by (cases "DistributedSyncDataCollector_init a w")
  have "r \<noteq> Inl (RuntimeError m)" for m
    using init_errors_after_checks [OF f] r by (cases r) auto
  with r show "fst (DistributedSyncDataCollector_init a w)
       \<noteq> Inl (RuntimeError Cannot_dispatch_total_frames)"
    by simp
  from \<open>\<And>m. r \<noteq> Inl (RuntimeError m)\<close> r
  show "fst (DistributedSyncDataCollector_init a w)
       \<noteq> Inl (RuntimeError Cannot_dispatch_frames_per_batch)"
    by simp
qed

theorem init_frame_count_checks_witness:
  "DistributedSyncDataCollector_init
     (example_args\<lparr>create_env_fn := three_envs, arg_total_frames := 100\<rparr>) example_world
     = (Inl (RuntimeError Cannot_dispatch_total_frames), example_world)
   \<and> DistributedSyncDataCollector_init
       (example_args\<lparr>create_env_fn := four_envs, arg_frames_per_batch := 15\<rparr>) example_world
     = (Inl (RuntimeError Cannot_dispatch_frames_per_batch), example_world)
   \<and> fst (DistributedSyncDataCollector_init example_args example_world)
       \<noteq> Inl (RuntimeError Cannot_dispatch_total_frames)
   \<and> fst (DistributedSyncDataCollector_init example_args example_world)
       \<noteq> Inl (RuntimeError Cannot_dispatch_frames_per_batch)"
  using init_frame_count_checks
          [of "example_args\<lparr>create_env_fn := three_envs, arg_total_frames := 100\<rparr>" example_world]
        init_frame_count_checks
          [of "example_args\<lparr>create_env_fn := four_envs, arg_frames_per_batch := 15\<rparr>" example_world]
        init_frame_count_checks [of example_args example_world]
  by (simp add: example_args_def three_envs_def four_envs_def)

section \<open>Construction: what a successful construction has done\<close>

lemma worker_args_jobs [simp]: "worker_args (self\<lparr>jobs := js\<rparr>) i = worker_args self i"
  by (simp add: worker_args_def)

lemma launch_workers_ok:
  "launch_workers self w is = (Inr self', w') \<Longrightarrow>
     self' = self\<lparr>jobs := jobs self @ map (mk_job self) is\<rparr>
     \<and> w' = w\<lparr>procs := procs w @ map (\<lambda>i. (i + 1, Running)) is,
               events := events w @ map (launch_event (launcher self)) is\<rparr>
     \<and> (\<forall>i \<in> set is. \<not> isl (worker_args self i))"
proof (induction "is" arbitrary: self w)
  case Nil
  then show ?case by simp
next
  case (Cons i "is")
  from Cons.prems obtain a where a: "worker_args self i = Inr a"
    and l: "launcher self = ''submitit'' \<or> launcher self = ''mp''"
    and r: "launch_workers
               (self\<lparr>jobs := jobs self @ [\<lparr>job_launcher = launcher self, job_args = a\<rparr>]\<rparr>)
               (w\<lparr>procs := procs w @ [(i + 1, Running)],
                  events := events w @ [launch_event (launcher self) i]\<rparr>)
               is = (Inr self', w')"
    by (auto split: if_splits sum.splits)
  from Cons.IH [OF r] a show ?case
    by (simp add: mk_job_def)
qed

lemma init_master_dist_ok:
  assumes "init_master_dist self w = (Inr self', w')"
  shows "self' = self"
    and "w' = w\<lparr>events := events w @ [Init_process_group 0 (nat (num_workers self + 1))]\<rparr>"
    and "\<forall>jb \<in> set (jobs self). \<not> isl (node_setup (job_args jb))"
proof -
  from assms have f: "filter (\<lambda>jb. isl (node_setup (job_args jb))) (jobs self) = []"
    by (auto simp: init_master_dist_def Let_def split: if_splits)
  then show "\<forall>jb \<in> set (jobs self). \<not> isl (node_setup (job_args jb))"
    by (simp add: filter_empty_conv)
  have m: "map (\<lambda>(r, st). if r \<in> set ([]::nat list) then (r, Exited) else (r, st)) ps = ps"
    for ps :: "(nat \<times> proc_state) list"
    by (induction ps) auto
  from assms f show "self' = self"
    by (simp add: init_master_dist_def Let_def)
  from assms f show "w' = w\<lparr>events := events w @ [Init_process_group 0 (nat (num_workers self + 1))]\<rparr>"
    by (auto simp: init_master_dist_def Let_def m)
qed

lemma init_workers_ok:
  assumes "init_workers self w = (Inr self', w')" and "0 \<le> num_workers self"
  shows "self' = self\<lparr>IPAddr := host_ip w,
                      jobs := map (mk_job (self\<lparr>IPAddr := host_ip w\<rparr>)) [0..<nat (num_workers self)]\<rparr>"
    and "w' = w\<lparr>procs := procs w @ map (\<lambda>i. (i + 1, Running)) [0..<nat (num_workers self)],
               events := events w @ launch_log (launcher self) (nat (num_workers self))\<rparr>"
    and "\<forall>jb \<in> set (jobs self'). \<not> isl (node_setup (job_args jb))"
    and "\<forall>i < nat (num_workers self). \<not> isl (worker_args (self\<lparr>IPAddr := host_ip w\<rparr>) i)"
    and "launcher self = ''submitit'' \<longrightarrow> has_submitit w"
proof -
  let ?s2 = "self\<lparr>IPAddr := host_ip w, jobs := []\<rparr>"
  let ?w1 = "w\<lparr>events := events w @ [Set_environ ''MASTER_ADDR'', Set_environ ''MASTER_PORT'']\<rparr>"
  let ?w2 = "if launcher self = ''submitit''
             then ?w1\<lparr>events := events ?w1 @ [Executor_created]\<rparr> else ?w1"
  from assms(1) show sub: "launcher self = ''submitit'' \<longrightarrow> has_submitit w"
    by (auto simp: init_workers_def Let_def split: if_splits)
  from assms(1) sub obtain self3 w3 where
    l: "launch_workers ?s2 ?w2 [0..<nat (num_workers self)] = (Inr self3, w3)"
    and m: "init_master_dist self3 w3 = (Inr self', w')"
    by (auto simp: init_workers_def Let_def split: if_splits prod.splits sum.splits)
  note lw = launch_workers_ok [OF l]
  note md = init_master_dist_ok [OF m]
  have mj: "mk_job ?s2 = mk_job (self\<lparr>IPAddr := host_ip w\<rparr>)"
    by (rule ext) (simp add: mk_job_def)
  from lw md(1) show "self' = self\<lparr>IPAddr := host_ip w,
      jobs := map (mk_job (self\<lparr>IPAddr := host_ip w\<rparr>)) [0..<nat (num_workers self)]\<rparr>"
    by (simp add: mj)
  from lw md(1,2) assms(2) show "w' = w\<lparr>procs := procs w @ map (\<lambda>i. (i + 1, Running)) [0..<nat (num_workers self)],
               events := events w @ launch_log (launcher self) (nat (num_workers self))\<rparr>"
    by (simp add: launch_log_def nat_add_distrib)
  from md(1,3) show "\<forall>jb \<in> set (jobs self'). \<not> isl (node_setup (job_args jb))"
    by simp
  from lw show "\<forall>i < nat (num_workers self). \<not> isl (worker_args (self\<lparr>IPAddr := host_ip w\<rparr>) i)"
    by simp
qed

lemma make_container_ok:
  assumes "make_container self w = (Inr self', w')"
  shows "self' = self\<lparr>tensordict_out := Some (lock (buffer_of self)),
                      single_tds := unbind0 (buffer_of self)\<rparr>"
    and "w' = w\<lparr>events := events w @ [Probe_rollout, Buffer_locked, Probe_shutdown]\<rparr>"
    and "0 < total_frames self"
    and "env_constructors self \<noteq> []"
  using assms
  unfolding make_container_def Let_def buffer_of_def probe_batch_def collector_next_def
  by (auto split: list.splits sum.splits option.splits if_splits)

lemma init_fields_ok:
  assumes "init_fields a w = Inr self"
  shows "create_env_fn a \<noteq> []"
    and "arg_total_frames a mod int (length (create_env_fn a)) = 0"
    and "arg_frames_per_batch a mod int (length (create_env_fn a)) = 0"
    and "num_workers self = int (length (create_env_fn a))"
    and "env_constructors self = create_env_fn a"
    and "total_frames self = arg_total_frames a"
    and "frames_per_batch self = arg_frames_per_batch a"
    and "frames_per_batch_corrected self = arg_frames_per_batch a div int (length (create_env_fn a))"
    and "total_frames_per_collector self = arg_total_frames a div int (length (create_env_fn a))"
    and "update_interval self = arg_update_interval a"
    and "policy self = arg_policy a"
    and "policy_weights self = get_policy_weights (arg_policy a)"
    and "launcher self = arg_launcher a"
    and "storing_device self = arg_storing_device a"
    and "collector_class self = resolve_collector_class (arg_collector_class a)"
    and "num_workers_per_collector self = arg_num_workers_per_collector a"
    and "batches_since_weight_update self = replicate (length (create_env_fn a)) 0"
  using assms
  by (auto simp: init_fields_def Let_def div_mult_eq_iff_mod map_replicate_const
           split: if_splits)

lemma init_ok:
  assumes "DistributedSyncDataCollector_init a w = (Inr self, w')"
  shows "\<exists>self0. init_fields a w = Inr self0
           \<and> self = self0\<lparr>IPAddr := host_ip w,
                 jobs := map (mk_job (self0\<lparr>IPAddr := host_ip w\<rparr>)) [0..<length (create_env_fn a)],
                 tensordict_out := Some (lock (buffer_of self0)),
                 single_tds := unbind0 (buffer_of self0)\<rparr>
           \<and> w' = w\<lparr>procs := procs w @ map (\<lambda>i. (i + 1, Running)) [0..<length (create_env_fn a)],
                     events := events w @ launch_log (arg_launcher a) (length (create_env_fn a))
                               @ [Probe_rollout, Buffer_locked, Probe_shutdown]\<rparr>
           \<and> (\<forall>jb \<in> set (jobs self). \<not> isl (node_setup (job_args jb)))
           \<and> (\<forall>i < length (create_env_fn a). \<not> isl (worker_args (self0\<lparr>IPAddr := host_ip w\<rparr>) i))
           \<and> 0 < arg_total_frames a"
proof -
  from assms obtain self0 where f: "init_fields a w = Inr self0"
    by (auto simp: DistributedSyncDataCollector_init_def split: sum.splits)
  with assms obtain self1 w1 where iw: "init_workers self0 w = (Inr self1, w1)"
    and mc: "make_container self1 w1 = (Inr self, w')"
    by (auto simp: DistributedSyncDataCollector_init_def split: sum.splits prod.splits)
  note ff = init_fields_ok [OF f]
  have nn: "0 \<le> num_workers self0" "nat (num_workers self0) = length (create_env_fn a)"
    using ff(4) by simp_all
  note w = init_workers_ok [OF iw nn(1), unfolded nn(2) ff(13)]
  note c = make_container_ok [OF mc]
  have b: "buffer_of self1 = buffer_of self0"
    by (simp add: w(1) buffer_of_def probe_batch_def)
  have "self = self0\<lparr>IPAddr := host_ip w,
                 jobs := map (mk_job (self0\<lparr>IPAddr := host_ip w\<rparr>)) [0..<length (create_env_fn a)],
                 tensordict_out := Some (lock (buffer_of self0)),
                 single_tds := unbind0 (buffer_of self0)\<rparr>"
    by (simp add: c(1) b) (simp add: w(1))
  moreover have "w' = w\<lparr>procs := procs w @ map (\<lambda>i. (i + 1, Running)) [0..<length (create_env_fn a)],
                     events := events w @ launch_log (arg_launcher a) (length (create_env_fn a))
                               @ [Probe_rollout, Buffer_locked, Probe_shutdown]\<rparr>"
    by (simp add: c(2)) (simp add: w(2))
  moreover have "\<forall>jb \<in> set (jobs self). \<not> isl (node_setup (job_args jb))"
    using w(3) by (simp add: c(1))
  moreover have "0 < arg_total_frames a"
    using c(3) ff(6) by (simp add: w(1))
  ultimately show ?thesis using f w(4) by blast
qed

section \<open>Unsupported operations\<close>

text \<open>
  C4. \<^verbatim>\<open>update_policy_weights_\<close>, \<^verbatim>\<open>set_seed\<close>, \<^verbatim>\<open>state_dict\<close> and \<^verbatim>\<open>load_state_dict\<close> raise
  \<^verbatim>\<open>NotImplementedError\<close> on every collector and for every argument: none of them
  returns a value.
\<close>

theorem unsupported_operations_raise:
  "update_policy_weights' self worker_rank = Inl NotImplementedError
   \<and> set_seed self seed static_seed = Inl NotImplementedError
   \<and> state_dict self = Inl NotImplementedError
   \<and> load_state_dict self sd = Inl NotImplementedError"
  by (simp add: update_policy_weights'_def set_seed_def state_dict_def load_state_dict_def)

section \<open>Construction: the order of the steps\<close>

lemma all_before_append:
  "\<not> list_ex Q xs \<Longrightarrow> \<not> list_ex P ys \<Longrightarrow> all_before P Q (xs @ ys)"
proof (induction xs)
  case Nil
  then show ?case by (induction ys) auto
next
  case (Cons x xs)
  then show ?case by simp
qed

lemma launch_log_no_probe: "\<not> list_ex is_probe (launch_log l n)"
  by (auto simp: launch_log_def list_ex_iff is_probe_def launch_event_def)

lemma no_launch_after_probe:
  "\<not> list_ex is_launch [Probe_rollout, Buffer_locked, Probe_shutdown]"
  "\<not> list_ex is_rendezvous [Probe_rollout, Buffer_locked, Probe_shutdown]"
  by (simp_all add: is_launch_def is_rendezvous_def)

text \<open>
  C7 (as amended).  A successful construction has, in this order: published the address and
  the port, launched every worker through the launcher, performed the rendezvous as rank 0
  of \<open>num_workers + 1\<close> members, and only then run the throwaway rollout that gives the
  output buffer its shape, locked the buffer and shut the probe down.  Every launch and the
  rendezvous come before the shape probe.
\<close>

theorem construction_order:
  assumes "DistributedSyncDataCollector_init a w = (Inr self, w')"
  shows "new_events w w' =
           [Set_environ ''MASTER_ADDR'', Set_environ ''MASTER_PORT'']
           @ (if arg_launcher a = ''submitit'' then [Executor_created] else [])
           @ map (launch_event (arg_launcher a)) [0..<length (create_env_fn a)]
           @ [Init_process_group 0 (length (create_env_fn a) + 1)]
           @ [Probe_rollout, Buffer_locked, Probe_shutdown]
       \<and> all_before is_launch is_probe (new_events w w')
       \<and> all_before is_rendezvous is_probe (new_events w w')"
proof -
  from init_ok [OF assms]
  have e: "new_events w w' = launch_log (arg_launcher a) (length (create_env_fn a))
             @ [Probe_rollout, Buffer_locked, Probe_shutdown]"
    by (auto simp: new_events_def)
  have "all_before is_launch is_probe (new_events w w')"
    unfolding e by (rule all_before_append [OF launch_log_no_probe no_launch_after_probe(1)])
  moreover have "all_before is_rendezvous is_probe (new_events w w')"
    unfolding e by (rule all_before_append [OF launch_log_no_probe no_launch_after_probe(2)])
  ultimately show ?thesis using e by (simp add: launch_log_def)
qed

subsection \<open>The example construction, evaluated\<close>

lemmas eval_defs =
  init_fields_def init_workers_def init_master_dist_def make_container_def
  worker_args_def node_setup_def collector_next_def rollout_batch_def
  resolve_collector_class_def get_policy_weights_def launch_event_def
  expand_def to_tensordict_def to_device_def unbind0_def lock_def Let_def

lemma example_init:
  "DistributedSyncDataCollector_init example_args example_world
     = (Inr example_collector, example_world_after)"
  unfolding DistributedSyncDataCollector_init_def example_args_def example_world_def
    example_collector_def example_world_after_def
  by (simp add: eval_defs upt_rec numeral_2_eq_2 numeral_3_eq_3)

theorem construction_order_witness:
  "new_events example_world (snd (DistributedSyncDataCollector_init example_args example_world))
     = [Set_environ ''MASTER_ADDR'', Set_environ ''MASTER_PORT'', Start_process 1, Start_process 2,
        Init_process_group 0 3, Probe_rollout, Buffer_locked, Probe_shutdown]"
proof -
  from construction_order [OF example_init]
  have "new_events example_world example_world_after
     = [Set_environ ''MASTER_ADDR'', Set_environ ''MASTER_PORT'', Start_process 1, Start_process 2,
        Init_process_group 0 3, Probe_rollout, Buffer_locked, Probe_shutdown]"
    by (simp add: example_args_def launch_event_def upt_rec)
  then show ?thesis by (simp add: example_init)
qed

text \<open>
  C7 (as stated) asks for the shape probe to come before the workers are launched.  In the
  example construction, which succeeds, a launch precedes the probe.
\<close>

theorem probe_first_counterexample:
  "\<not> isl (fst (DistributedSyncDataCollector_init example_args example_world))
   \<and> \<not> all_before is_probe is_launch
         (new_events example_world
            (snd (DistributedSyncDataCollector_init example_args example_world)))"
  unfolding example_init
  by (simp add: new_events_def example_world_def example_world_after_def
        is_probe_def is_launch_def)

section \<open>Construction: the cluster-job launcher without its library\<close>

lemma init_fields_succeeds:
  assumes "create_env_fn a \<noteq> []"
    and "arg_total_frames a mod int (length (create_env_fn a)) = 0"
    and "arg_frames_per_batch a mod int (length (create_env_fn a)) = 0"
  shows "\<exists>self. init_fields a w = Inr self"
  using assms by (simp add: init_fields_def Let_def div_mult_eq_iff_mod)

lemma init_fields_fails_world:
  "init_fields a w = Inl e \<Longrightarrow> DistributedSyncDataCollector_init a w = (Inl e, w)"
  by (simp add: DistributedSyncDataCollector_init_def)

lemma init_workers_no_submitit:
  assumes "launcher self = ''submitit''" and "\<not> has_submitit w"
  shows "init_workers self w
           = (Inl ImportError,
              w\<lparr>events := events w @ [Set_environ ''MASTER_ADDR'', Set_environ ''MASTER_PORT'']\<rparr>)"
  using assms by (simp add: init_workers_def Let_def)

text \<open>
  C8.  When the launcher is \<^verbatim>\<open>"submitit"\<close> and \<^verbatim>\<open>import submitit\<close> failed, construction never
  returns a collector, and it launches no worker: the worker processes of the world are
  those of before, and what construction has added to the record of side effects contains
  no launch.  When the frame counts pass the checks that come first in \<^verbatim>\<open>__init__\<close> (C2), the
  exception is the \<^verbatim>\<open>ImportError\<close>, raised after the address and the port are published and
  before the launch loop.
\<close>

theorem submitit_unavailable:
  assumes "arg_launcher a = ''submitit''" and "\<not> has_submitit w"
  shows "isl (fst (DistributedSyncDataCollector_init a w))
       \<and> procs (snd (DistributedSyncDataCollector_init a w)) = procs w
       \<and> \<not> list_ex is_launch (new_events w (snd (DistributedSyncDataCollector_init a w)))
       \<and> (create_env_fn a \<noteq> []
            \<and> arg_total_frames a mod int (length (create_env_fn a)) = 0
            \<and> arg_frames_per_batch a mod int (length (create_env_fn a)) = 0
          \<longrightarrow> DistributedSyncDataCollector_init a w
                = (Inl ImportError,
                   w\<lparr>events := events w @
                        [Set_environ ''MASTER_ADDR'', Set_environ ''MASTER_PORT'']\<rparr>))"
proof (cases "init_fields a w")
  case (Inl e)
  have "\<not> (create_env_fn a \<noteq> []
            \<and> arg_total_frames a mod int (length (create_env_fn a)) = 0
            \<and> arg_frames_per_batch a mod int (length (create_env_fn a)) = 0)"
    using init_fields_succeeds [of a w] Inl by auto
  then show ?thesis
    using init_fields_fails_world [OF Inl] by (auto simp: new_events_def)
next
  case (Inr self)
  have "launcher self = ''submitit''"
    using init_fields_ok(13) [OF Inr] assms(1) by simp
  from init_workers_no_submitit [OF this assms(2)] Inr
  have "DistributedSyncDataCollector_init a w
          = (Inl ImportError,
             w\<lparr>events := events w @ [Set_environ ''MASTER_ADDR'', Set_environ ''MASTER_PORT'']\<rparr>)"
    by (simp add: DistributedSyncDataCollector_init_def)
  then show ?thesis
    by (simp add: new_events_def is_launch_def)
qed

theorem submitit_unavailable_witness:
  "DistributedSyncDataCollector_init submitit_args example_world
     = (Inl ImportError,
        example_world\<lparr>events := [Set_environ ''MASTER_ADDR'', Set_environ ''MASTER_PORT'']\<rparr>)
   \<and> procs (snd (DistributedSyncDataCollector_init submitit_args example_world)) = []"
  using submitit_unavailable [of submitit_args example_world]
  by (simp add: submitit_args_def example_args_def example_world_def)

section \<open>The single-environment check\<close>

lemma node_step_errors:
  "node_step c s = Stop s' e \<Longrightarrow> e = None \<or> e = Some ZeroDivisionError"
  by (auto simp: node_step_def Let_def split: option.splits if_splits)

lemma node_loop_errors:
  assumes "node_loop c s = Some r"
  shows "snd r = None \<or> snd r = Some ZeroDivisionError"
  by (rule node_loop.raw_induct
        [where P = "\<lambda>c s r. snd r = None \<or> snd r = Some ZeroDivisionError", OF _ assms])
     (auto split: step.splits dest: node_step_errors)

lemma node_setup_single_error:
  "node_setup a = Inl (RuntimeError m) \<longleftrightarrow>
     m = Single_environment_only
     \<and> node_collector_class a = Class SyncDataCollector \<and> node_num_workers a \<noteq> 1"
  by (cases "node_collector_class a") (auto simp: node_setup_def split: if_splits)

text \<open>
  C6 (as amended).  The check is made by the worker, not by the coordinator.  The entry
  point of a worker raises the \<^verbatim>\<open>RuntimeError\<close> "can only support a single environment"
  before it creates its collector and joins the group, exactly when the collector class is
  \<^verbatim>\<open>SyncDataCollector\<close> and the number of sub-environments is not 1 (so also for 0 or a
  negative number); with exactly 1 the error is not raised.  The constructor of the
  coordinator never raises this error.
\<close>

theorem single_environment_check:
  "(node_collector_class a = Class SyncDataCollector \<and> node_num_workers a \<noteq> 1 \<longrightarrow>
      distributed_init_collection_node a
        = Some (\<lparr>ns_i = 0, ns_frames = 0, ns_trace = []\<rparr>,
                Some (RuntimeError Single_environment_only)))
   \<and> (node_num_workers a = 1 \<longrightarrow>
        (\<forall>s. distributed_init_collection_node a
               \<noteq> Some (s, Some (RuntimeError Single_environment_only))))
   \<and> fst (DistributedSyncDataCollector_init ia w) \<noteq> Inl (RuntimeError Single_environment_only)"
proof (intro conjI impI allI)
  assume "node_collector_class a = Class SyncDataCollector \<and> node_num_workers a \<noteq> 1"
  then have "node_setup a = Inl (RuntimeError Single_environment_only)"
    by (simp add: node_setup_single_error)
  then show "distributed_init_collection_node a
        = Some (\<lparr>ns_i = 0, ns_frames = 0, ns_trace = []\<rparr>,
                Some (RuntimeError Single_environment_only))"
    by (simp add: distributed_init_collection_node_def)
next
  fix s
  assume one: "node_num_workers a = 1"
  show "distributed_init_collection_node a \<noteq> Some (s, Some (RuntimeError Single_environment_only))"
  proof (cases "node_setup a")
    case (Inl e)
    with one have "e \<noteq> RuntimeError Single_environment_only"
      using node_setup_single_error [of a Single_environment_only] by auto
    with Inl show ?thesis by (simp add: distributed_init_collection_node_def)
  next
    case (Inr c)
    then show ?thesis
      using node_loop_errors [of c _ "(s, Some (RuntimeError Single_environment_only))"]
      by (auto simp: distributed_init_collection_node_def)
  qed
next
  show "fst (DistributedSyncDataCollector_init ia w) \<noteq> Inl (RuntimeError Single_environment_only)"
  proof (cases "init_fields ia w")
    case (Inl e)
    then have "e \<noteq> RuntimeError Single_environment_only"
      by (auto simp: init_fields_def Let_def split: if_splits)
    with init_fields_fails_world [OF Inl] show ?thesis by simp
  next
    case (Inr self)
    obtain r w' where r: "DistributedSyncDataCollector_init ia w = (r, w')"
      by (cases "DistributedSyncDataCollector_init ia w")
    show ?thesis
      using init_errors_after_checks [OF Inr] r by (cases r) auto
  qed
qed

lemma two_subenvs_init:
  "DistributedSyncDataCollector_init two_subenvs_args example_world
     = (Inl Rendezvous_timeout,
        example_world\<lparr>procs := [(1, Exited), (2, Exited)],
                      events := [Set_environ ''MASTER_ADDR'', Set_environ ''MASTER_PORT'',
                                 Start_process 1, Start_process 2]\<rparr>)"
  unfolding DistributedSyncDataCollector_init_def two_subenvs_args_def example_args_def
    example_world_def
  by (simp add: eval_defs upt_rec numeral_2_eq_2 numeral_3_eq_3)

theorem single_environment_check_witness:
  "distributed_init_collection_node (job_args (hd (jobs example_collector)))
       \<noteq> Some (\<lparr>ns_i = 0, ns_frames = 0, ns_trace = []\<rparr>, Some (RuntimeError Single_environment_only))
   \<and> distributed_init_collection_node
        ((job_args (hd (jobs example_collector)))\<lparr>node_num_workers := 2\<rparr>)
       = Some (\<lparr>ns_i = 0, ns_frames = 0, ns_trace = []\<rparr>, Some (RuntimeError Single_environment_only))
   \<and> fst (DistributedSyncDataCollector_init two_subenvs_args example_world)
       \<noteq> Inl (RuntimeError Single_environment_only)"
  using single_environment_check [of "job_args (hd (jobs example_collector))" two_subenvs_args example_world]
        single_environment_check
          [of "(job_args (hd (jobs example_collector)))\<lparr>node_num_workers := 2\<rparr>" two_subenvs_args example_world]
  by (simp add: example_collector_def)

text \<open>
  C6 (as stated) asks for the construction of the coordinator to fail with the
  configuration error.  With the single-environment strategy and two sub-environments the
  constructor raises no configuration error: it launches both workers, each worker raises
  in its own process and exits, and the constructor is left at a rendezvous that cannot
  complete.
\<close>

theorem single_environment_counterexample:
  "DistributedSyncDataCollector_init two_subenvs_args example_world
     = (Inl Rendezvous_timeout,
        example_world\<lparr>procs := [(1, Exited), (2, Exited)],
                      events := [Set_environ ''MASTER_ADDR'', Set_environ ''MASTER_PORT'',
                                 Start_process 1, Start_process 2]\<rparr>)
   \<and> arg_collector_class two_subenvs_args = Tag ''single''
   \<and> arg_num_workers_per_collector two_subenvs_args = 2"
  by (simp add: two_subenvs_init) (simp add: two_subenvs_args_def example_args_def)

section \<open>Shutdown\<close>

text \<open>
  C5 (as amended).  \<^verbatim>\<open>shutdown\<close> does nothing: called once or twice it raises no error and
  leaves the collector, the worker processes and the output buffer as they were.
\<close>

theorem shutdown_does_nothing:
  "shutdown self w = (Inr (), self, w) \<and> shutdown_twice self w = (Inr (), self, w)"
  by (simp add: shutdown_twice_def shutdown_def)

text \<open>
  C5 (as stated) asks that no worker is alive after the second call and that the buffer is
  released.  After the example construction both workers are running (each waits for the
  first parameter broadcast); after two calls of \<^verbatim>\<open>shutdown\<close> they still are, and the
  collector still holds its buffer.
\<close>

theorem shutdown_counterexample:
  "DistributedSyncDataCollector_init example_args example_world
     = (Inr example_collector, example_world_after)
   \<and> fst (shutdown_twice example_collector example_world_after) = Inr ()
   \<and> is_alive (snd (snd (shutdown_twice example_collector example_world_after))) 1
   \<and> is_alive (snd (snd (shutdown_twice example_collector example_world_after))) 2
   \<and> tensordict_out (fst (snd (shutdown_twice example_collector example_world_after))) \<noteq> None"
  by (simp add: example_init shutdown_twice_def shutdown_def is_alive_def)
     (simp add: example_world_after_def example_collector_def)

section \<open>The worker loop\<close>

lemma node_step_stop:
  assumes "\<not> ns_frames s < rc_total_frames (nc_collector c)"
  shows "node_step c s = Stop (s\<lparr>ns_trace := ns_trace s @ [Collector_shutdown]\<rparr>) None"
  using assms by (simp add: node_step_def collector_next_def)

lemma node_step_continue:
  assumes "ns_frames s < rc_total_frames (nc_collector c)"
    and "nc_update_interval c \<noteq> 0"
  shows "node_step c s =
     Continue \<lparr>ns_i = ns_i s + 1,
               ns_frames = ns_frames s + numel (node_batch c),
               ns_trace = ns_trace s @ Collect (ns_i s) # map (Isend_data (ns_i s)) (keys (node_batch c))
                 @ (if ns_frames s + numel (node_batch c) < nc_total_frames c
                       \<and> (int (ns_i s) + 1) mod nc_update_interval c = 0
                    then map Irecv_weights (keys (nc_policy_weights c)) else [])\<rparr>"
  using assms
  by (simp add: node_step_def collector_next_def node_batch_def Let_def is_empty_def keys_def)

lemma mult_less_iff_less_rounds:
  fixes b T :: int and n i :: nat
  assumes "0 < b" and "(int n - 1) * b < T" and "T \<le> int n * b"
  shows "int i * b < T \<longleftrightarrow> i < n"
proof
  assume "int i * b < T"
  with assms(3) have "int i * b < int n * b" by simp
  with assms(1) show "i < n" by (simp add: mult_less_cancel_right)
next
  assume "i < n"
  then have "int i \<le> int n - 1" by simp
  with assms(1) have "int i * b \<le> (int n - 1) * b" by (simp add: mult_right_mono)
  with assms(2) show "int i * b < T" by simp
qed

lemma node_loop_run:
  fixes c :: node_ctx and n :: nat
  defines "b \<equiv> numel (node_batch c)"
  assumes ui: "nc_update_interval c \<noteq> 0"
    and tot: "nc_total_frames c = rc_total_frames (nc_collector c)"
    and lo: "(int n - 1) * b < nc_total_frames c"
    and hi: "nc_total_frames c \<le> int n * b"
    and b: "0 < b"
  shows "i \<le> n \<Longrightarrow>
     node_loop c \<lparr>ns_i = i, ns_frames = int i * b,
                  ns_trace = pre @ concat (map (node_round_events c) [0..<i])
                    @ (if i < n \<and> int i mod nc_update_interval c = 0
                       then map Irecv_weights (keys (nc_policy_weights c)) else [])\<rparr>
       = Some (\<lparr>ns_i = n, ns_frames = int n * b,
                 ns_trace = pre @ concat (map (node_round_events c) [0..<n])
                    @ [Collector_shutdown]\<rparr>, None)"
proof (induction "n - i" arbitrary: i)
  case 0
  then have i: "i = n" by simp
  have "\<not> int n * b < rc_total_frames (nc_collector c)"
    using hi tot by simp
  then show ?case
    by (subst node_loop.simps) (simp add: node_step_stop i)
next
  case (Suc k)
  then have i: "i < n" by simp
  let ?s = "\<lparr>ns_i = i, ns_frames = int i * b,
              ns_trace = pre @ concat (map (node_round_events c) [0..<i])
                 @ (if i < n \<and> int i mod nc_update_interval c = 0
                    then map Irecv_weights (keys (nc_policy_weights c)) else [])\<rparr>"
  have lt: "int j * b < nc_total_frames c \<longleftrightarrow> j < n" for j
    using mult_less_iff_less_rounds [OF b lo hi] .
  have fr: "ns_frames ?s < rc_total_frames (nc_collector c)"
    using lt [of i] i tot by simp
  have e1: "ns_frames ?s + numel (node_batch c) = int (Suc i) * b"
    by (simp add: b_def algebra_simps)
  have e2: "int (ns_i ?s) + 1 = int (Suc i)"
    by simp
  have step: "node_step c ?s =
     Continue \<lparr>ns_i = Suc i, ns_frames = int (Suc i) * b,
               ns_trace = pre @ concat (map (node_round_events c) [0..<Suc i])
                 @ (if Suc i < n \<and> int (Suc i) mod nc_update_interval c = 0
                    then map Irecv_weights (keys (nc_policy_weights c)) else [])\<rparr>"
    unfolding node_step_continue [OF fr ui] e1 e2
    using i lt [of "Suc i"]
    by (simp add: node_round_events_def)
  have "Suc i \<le> n" "k = n - Suc i" using i Suc by simp_all
  from Suc.hyps(1) [OF this(2) this(1)] show ?case
    by (subst node_loop.simps) (simp add: step)
qed

section \<open>The iteration loop of the coordinator\<close>

lemma numel_clone [simp]: "numel (clone td) = numel td"
  by (simp add: numel_def clone_def)

lemma iterator_step_stop:
  assumes "\<not> it_total_frames s < total_frames self"
  shows "iterator_step self s = Stop s None"
  using assms by (simp add: iterator_step_def)

lemma iterator_step_continue:
  assumes "it_total_frames s < total_frames self"
    and "update_interval self \<noteq> 0"
    and "gather self (nat (it_j s + 1)) = Some (Inr (receive_events self))"
    and "tensordict_out self = Some out"
  shows "iterator_step self s =
     Continue \<lparr>it_total_frames = it_total_frames s + numel out,
               it_j = it_j s + 1,
               it_yielded = it_yielded s @
                 [\<lparr>round_j = it_j s + 1,
                   round_events =
                     (if (it_j s + 1) mod update_interval self = 0
                      then broadcast_events self else [])
                     @ receive_events self,
                   round_data = clone out,
                   round_total_frames = it_total_frames s + numel out,
                   round_batches_since_weight_update = batches_since_weight_update self\<rparr>]\<rparr>"
  using assms by (simp add: iterator_step_def Let_def)

lemma iterator_dist_run:
  fixes self :: collector and n :: nat
  defines "B \<equiv> numel (the (tensordict_out self))"
  assumes ui: "update_interval self \<noteq> 0"
    and out: "tensordict_out self = Some out"
    and lo: "(int n - 1) * B < total_frames self"
    and hi: "total_frames self \<le> int n * B"
    and B: "0 < B"
    and g: "\<And>j. j < n \<Longrightarrow> gather self j = Some (Inr (receive_events self))"
  shows "k \<le> n \<Longrightarrow>
     iterator_dist self \<lparr>it_total_frames = int k * B, it_j = int k - 1, it_yielded = ys\<rparr>
       = Some (\<lparr>it_total_frames = int n * B, it_j = int n - 1,
                 it_yielded = ys @ map (expected_round self) [k..<n]\<rparr>, None)"
proof (induction "n - k" arbitrary: k ys)
  case 0
  then have k: "k = n" by simp
  have "\<not> int n * B < total_frames self" using hi by simp
  then show ?case
    by (subst iterator_dist.simps) (simp add: iterator_step_stop k)
next
  case (Suc m)
  then have k: "k < n" by simp
  let ?s = "\<lparr>it_total_frames = int k * B, it_j = int k - 1, it_yielded = ys\<rparr>"
  have lt: "it_total_frames ?s < total_frames self"
    using mult_less_iff_less_rounds [OF B lo hi, of k] k by simp
  have gk: "gather self (nat (it_j ?s + 1)) = Some (Inr (receive_events self))"
    using g [OF k] by simp
  have Bo: "numel out = B" by (simp add: B_def out)
  have e1: "it_total_frames ?s + numel out = int (Suc k) * B"
    by (simp add: Bo algebra_simps)
  have e2: "it_j ?s + 1 = int k"
    by simp
  have er: "\<lparr>round_j = int k,
             round_events = (if int k mod update_interval self = 0
                             then broadcast_events self else []) @ receive_events self,
             round_data = clone out, round_total_frames = int (Suc k) * B,
             round_batches_since_weight_update = batches_since_weight_update self\<rparr>
            = expected_round self k"
    by (simp add: expected_round_def out B_def)
  have step: "iterator_step self ?s =
     Continue \<lparr>it_total_frames = int (Suc k) * B, it_j = int (Suc k) - 1,
               it_yielded = (ys @ [expected_round self k])\<rparr>"
    unfolding iterator_step_continue [OF lt ui gk out] e1 e2 er
    by simp
  have "Suc k \<le> n" "m = n - Suc k" using k Suc by simp_all
  from Suc.hyps(1) [OF this(2) this(1), of "ys @ [expected_round self k]"] show ?case
    by (subst iterator_dist.simps) (simp add: step upt_conv_Cons [OF k])
qed

section \<open>A constructed collector and its workers\<close>

lemma ceil_rounds_exist:
  fixes b T :: int
  assumes "0 < b" and "0 < T"
  shows "\<exists>n::nat. 0 < n \<and> (int n - 1) * b < T \<and> T \<le> int n * b"
proof -
  define q where "q = (T - 1) div b"
  have q0: "0 \<le> q" using assms by (simp add: q_def pos_imp_zdiv_nonneg_iff)
  have d: "T - 1 = q * b + (T - 1) mod b" by (simp add: q_def)
  have m: "0 \<le> (T - 1) mod b" "(T - 1) mod b < b" using assms by simp_all
  have e: "(q + 1) * b = q * b + b" by (simp add: algebra_simps)
  have "0 < nat (q + 1)" using q0 by simp
  moreover have "(int (nat (q + 1)) - 1) * b < T" using q0 d m by simp
  moreover have "T \<le> int (nat (q + 1)) * b" using q0 d m e by simp
  ultimately show ?thesis by blast
qed

lemma buffer_of_layout:
  "buffer_of self =
     buffer_layout (hd (env_constructors self)) (policy self) (nat (num_workers self))
       (frames_per_batch_corrected self) (storing_device self)"
  by (simp add: buffer_of_def probe_batch_def rollout_batch_def expand_def to_tensordict_def
        to_device_def buffer_layout_def case_prod_beta)

lemma unbind0_buffer_layout:
  "unbind0 (buffer_layout e p nw fpw dev) =
     replicate nw \<lparr>batch_size = [nat fpw],
                   entries = map (\<lambda>(k, s). (k, nat fpw # s)) (env_fields e @ policy_out p),
                   device = dev, locked = False\<rparr>"
  by (simp add: unbind0_def buffer_layout_def comp_def case_prod_beta)

lemma numel_buffer_layout:
  assumes "0 < nw" and "0 < fpw"
  shows "numel (buffer_layout e p nw fpw dev) = int nw * fpw"
proof -
  have "1 \<le> int nw" "1 \<le> fpw" using assms by simp_all
  then have "1 * 1 \<le> int nw * fpw" by (intro mult_mono) simp_all
  then have "max 1 (int nw * fpw) = int nw * fpw" by simp
  moreover have "numel (buffer_layout e p nw fpw dev) = max 1 (int nw * fpw)"
    using assms by (simp add: numel_def buffer_layout_def)
  ultimately show ?thesis by simp
qed

lemma keys_rollout_batch: "keys (rollout_batch e p fpw) = map fst (env_fields e @ policy_out p)"
  by (simp add: keys_def rollout_batch_def comp_def case_prod_beta)

lemma node_setup_fields:
  assumes "node_setup a = Inr c"
  shows "nc_update_interval c = node_update_interval a"
    and "nc_total_frames c = node_total_frames a"
    and "rc_total_frames (nc_collector c) = node_total_frames a"
    and "rc_frames_per_batch (nc_collector c) = node_frames_per_batch a"
    and "nc_policy_weights c = get_policy_weights (node_policy a)"
    and "rc_env (nc_collector c) = env_make a"
    and "rc_policy (nc_collector c) = node_policy a"
  using assms
  by (auto simp: node_setup_def split: sum.splits if_splits)

lemma worker_args_fields:
  assumes "worker_args self i = Inr x"
  shows "rank x = i + 1"
    and "world_size x = nat (num_workers self + 1)"
    and "node_update_interval x = update_interval self"
    and "node_total_frames x = total_frames_per_collector self"
    and "node_frames_per_batch x = frames_per_batch_corrected self"
    and "node_policy x = policy self"
    and "env_make x = wrap_env_make (env_constructors self ! i)"
    and "node_collector_class x = collector_class self"
    and "node_num_workers x = num_workers_per_collector self"
  using assms
  by (auto simp: worker_args_def split: if_splits)

text \<open>
  What the theorems on the iteration need of a successful construction, in terms of the
  arguments of the constructor.
\<close>

lemma init_collector:
  assumes "DistributedSyncDataCollector_init a w = (Inr self, w')"
  shows "create_env_fn a \<noteq> []"
    and "num_workers self = int (length (create_env_fn a))"
    and "total_frames self = arg_total_frames a"
    and "0 < arg_total_frames a"
    and "arg_total_frames a mod int (length (create_env_fn a)) = 0"
    and "arg_frames_per_batch a mod int (length (create_env_fn a)) = 0"
    and "update_interval self = arg_update_interval a"
    and "policy_weights self = get_policy_weights (arg_policy a)"
    and "batches_since_weight_update self = replicate (length (create_env_fn a)) 0"
    and "tensordict_out self =
           Some (lock (buffer_layout (hd (create_env_fn a)) (arg_policy a)
                   (length (create_env_fn a))
                   (arg_frames_per_batch a div int (length (create_env_fn a)))
                   (arg_storing_device a)))"
    and "single_tds self =
           unbind0 (buffer_layout (hd (create_env_fn a)) (arg_policy a)
                   (length (create_env_fn a))
                   (arg_frames_per_batch a div int (length (create_env_fn a)))
                   (arg_storing_device a))"
    and "length (jobs self) = length (create_env_fn a)"
proof -
  from init_ok [OF assms] obtain self0 where
    f: "init_fields a w = Inr self0"
    and s: "self = self0\<lparr>IPAddr := host_ip w,
                 jobs := map (mk_job (self0\<lparr>IPAddr := host_ip w\<rparr>)) [0..<length (create_env_fn a)],
                 tensordict_out := Some (lock (buffer_of self0)),
                 single_tds := unbind0 (buffer_of self0)\<rparr>"
    and t: "0 < arg_total_frames a"
    by blast
  note ff = init_fields_ok [OF f]
  have b: "buffer_of self0 = buffer_layout (hd (create_env_fn a)) (arg_policy a)
                   (length (create_env_fn a))
                   (arg_frames_per_batch a div int (length (create_env_fn a)))
                   (arg_storing_device a)"
    by (simp add: buffer_of_layout ff)
  show "create_env_fn a \<noteq> []" by (rule ff(1))
  show "num_workers self = int (length (create_env_fn a))" by (simp add: s ff)
  show "total_frames self = arg_total_frames a" by (simp add: s ff)
  show "0 < arg_total_frames a" by (rule t)
  show "arg_total_frames a mod int (length (create_env_fn a)) = 0" by (rule ff(2))
  show "arg_frames_per_batch a mod int (length (create_env_fn a)) = 0" by (rule ff(3))
  show "update_interval self = arg_update_interval a" by (simp add: s ff)
  show "policy_weights self = get_policy_weights (arg_policy a)" by (simp add: s ff)
  show "batches_since_weight_update self = replicate (length (create_env_fn a)) 0"
    by (simp add: s ff)
  show "tensordict_out self =
           Some (lock (buffer_layout (hd (create_env_fn a)) (arg_policy a)
                   (length (create_env_fn a))
                   (arg_frames_per_batch a div int (length (create_env_fn a)))
                   (arg_storing_device a)))"
    by (simp add: s b)
  show "single_tds self =
           unbind0 (buffer_layout (hd (create_env_fn a)) (arg_policy a)
                   (length (create_env_fn a))
                   (arg_frames_per_batch a div int (length (create_env_fn a)))
                   (arg_storing_device a))"
    by (simp add: s b)
  show "length (jobs self) = length (create_env_fn a)" by (simp add: s)
qed

lemma init_jobs:
  assumes "DistributedSyncDataCollector_init a w = (Inr self, w')"
    and "jb \<in> set (jobs self)"
  shows "\<exists>c. node_setup (job_args jb) = Inr c
           \<and> nc_update_interval c = arg_update_interval a
           \<and> nc_total_frames c = arg_total_frames a div int (length (create_env_fn a))
           \<and> rc_total_frames (nc_collector c) = arg_total_frames a div int (length (create_env_fn a))
           \<and> rc_frames_per_batch (nc_collector c)
               = arg_frames_per_batch a div int (length (create_env_fn a))
           \<and> nc_policy_weights c = get_policy_weights (arg_policy a)
           \<and> rc_policy (nc_collector c) = arg_policy a"
proof -
  from init_ok [OF assms(1)] obtain self0 where
    f: "init_fields a w = Inr self0"
    and s: "self = self0\<lparr>IPAddr := host_ip w,
                 jobs := map (mk_job (self0\<lparr>IPAddr := host_ip w\<rparr>)) [0..<length (create_env_fn a)],
                 tensordict_out := Some (lock (buffer_of self0)),
                 single_tds := unbind0 (buffer_of self0)\<rparr>"
    and ns: "\<forall>jb \<in> set (jobs self). \<not> isl (node_setup (job_args jb))"
    and wa: "\<forall>i < length (create_env_fn a). \<not> isl (worker_args (self0\<lparr>IPAddr := host_ip w\<rparr>) i)"
    by blast
  note ff = init_fields_ok [OF f]
  from assms(2) s obtain i where i: "i < length (create_env_fn a)"
    and jb: "jb = mk_job (self0\<lparr>IPAddr := host_ip w\<rparr>) i"
    by auto
  from wa i obtain x where x: "worker_args (self0\<lparr>IPAddr := host_ip w\<rparr>) i = Inr x"
    by (cases "worker_args (self0\<lparr>IPAddr := host_ip w\<rparr>) i") auto
  then have ja: "job_args jb = x" by (simp add: jb mk_job_def)
  from ns assms(2) obtain c where c: "node_setup (job_args jb) = Inr c"
    by (cases "node_setup (job_args jb)") auto
  note nf = node_setup_fields [OF c, unfolded ja]
  note wf = worker_args_fields [OF x]
  show ?thesis
    using c nf wf ff by simp
qed

section \<open>The coordinator and its workers, round by round\<close>

lemma numel_lock [simp]: "numel (lock td) = numel td"
  by (simp add: numel_def lock_def)

lemma numel_rollout_batch: "0 < fpw \<Longrightarrow> numel (rollout_batch e p fpw) = fpw"
  by (simp add: numel_def rollout_batch_def)

lemma collect_in_rounds: "j < n \<Longrightarrow> Collect j \<in> set (concat (map (node_round_events c) [0..<n]))"
  by (auto simp: node_round_events_def)

lemma system_run:
  assumes init: "DistributedSyncDataCollector_init a w = (Inr self, w')"
    and ui: "arg_update_interval a \<noteq> 0"
    and fpb: "0 < arg_frames_per_batch a"
  shows "\<exists>n. 0 < n
          \<and> (int n - 1) * arg_frames_per_batch a < arg_total_frames a
          \<and> arg_total_frames a \<le> int n * arg_frames_per_batch a
          \<and> iterator self
              = Some (\<lparr>it_total_frames = int n * arg_frames_per_batch a, it_j = int n - 1,
                        it_yielded = map (expected_round self) [0..<n]\<rparr>, None)
          \<and> (\<forall>jb \<in> set (jobs self). \<exists>c.
                node_setup (job_args jb) = Inr c
                \<and> nc_update_interval c = arg_update_interval a
                \<and> nc_policy_weights c = get_policy_weights (arg_policy a)
                \<and> distributed_init_collection_node (job_args jb)
                    = Some (\<lparr>ns_i = n,
                              ns_frames = int n * (arg_frames_per_batch a div int (length (create_env_fn a))),
                              ns_trace = Node_init_process_group (rank (job_args jb)) (world_size (job_args jb))
                                # concat (map (node_round_events c) [0..<n]) @ [Collector_shutdown]\<rparr>,
                            None))"
proof -
  define nw where "nw = length (create_env_fn a)"
  define fpw where "fpw = arg_frames_per_batch a div int nw"
  define T where "T = arg_total_frames a div int nw"
  note ic = init_collector [OF init, folded nw_def, folded fpw_def]
  have nw0: "0 < nw" using ic(1) by (simp add: nw_def)
  have "arg_frames_per_batch a div int nw * int nw = arg_frames_per_batch a"
    using ic(6) by (simp only: div_mult_eq_iff_mod)
  then have fpb_eq: "arg_frames_per_batch a = fpw * int nw"
    by (simp add: fpw_def)
  have "arg_total_frames a div int nw * int nw = arg_total_frames a"
    using ic(5) by (simp only: div_mult_eq_iff_mod)
  then have tot_eq: "arg_total_frames a = T * int nw"
    by (simp add: T_def)
  have "0 < fpw * int nw" using fpb fpb_eq by simp
  then have fpw0: "0 < fpw"
    using nw0 by (simp add: zero_less_mult_iff)
  have "0 < T * int nw" using ic(4) tot_eq by simp
  then have T0: "0 < T"
    using nw0 by (simp add: zero_less_mult_iff)
  from ceil_rounds_exist [OF fpw0 T0] obtain n where n0: "0 < n"
    and lo: "(int n - 1) * fpw < T" and hi: "T \<le> int n * fpw"
    by blast
  have lo': "(int n - 1) * arg_frames_per_batch a < arg_total_frames a"
  proof -
    have "(int n - 1) * fpw * int nw < T * int nw"
      using lo nw0 by (simp add: mult_strict_right_mono)
    then show ?thesis by (simp add: fpb_eq tot_eq mult.assoc)
  qed
  have hi': "arg_total_frames a \<le> int n * arg_frames_per_batch a"
  proof -
    have "T * int nw \<le> int n * fpw * int nw"
      using hi by (simp add: mult_right_mono)
    then show ?thesis by (simp add: fpb_eq tot_eq mult.assoc)
  qed
  have workers: "\<exists>c. node_setup (job_args jb) = Inr c
                \<and> nc_update_interval c = arg_update_interval a
                \<and> nc_policy_weights c = get_policy_weights (arg_policy a)
                \<and> distributed_init_collection_node (job_args jb)
                    = Some (\<lparr>ns_i = n, ns_frames = int n * fpw,
                              ns_trace = Node_init_process_group (rank (job_args jb)) (world_size (job_args jb))
                                # concat (map (node_round_events c) [0..<n]) @ [Collector_shutdown]\<rparr>,
                            None)"
    if jb: "jb \<in> set (jobs self)" for jb
  proof -
    from init_jobs [OF init jb, folded nw_def, folded fpw_def T_def] obtain c where
      c: "node_setup (job_args jb) = Inr c"
      and cu: "nc_update_interval c = arg_update_interval a"
      and ct: "nc_total_frames c = T"
      and crt: "rc_total_frames (nc_collector c) = T"
      and cb: "rc_frames_per_batch (nc_collector c) = fpw"
      and cw: "nc_policy_weights c = get_policy_weights (arg_policy a)"
      by blast
    have nb: "numel (node_batch c) = fpw"
      by (simp add: node_batch_def cb numel_rollout_batch [OF fpw0])
    have "node_loop c \<lparr>ns_i = 0, ns_frames = int 0 * numel (node_batch c),
                  ns_trace = [Node_init_process_group (rank (job_args jb)) (world_size (job_args jb))]
                    @ concat (map (node_round_events c) [0..<0])
                    @ (if 0 < n \<and> int 0 mod nc_update_interval c = 0
                       then map Irecv_weights (keys (nc_policy_weights c)) else [])\<rparr>
       = Some (\<lparr>ns_i = n, ns_frames = int n * numel (node_batch c),
                 ns_trace = [Node_init_process_group (rank (job_args jb)) (world_size (job_args jb))]
                    @ concat (map (node_round_events c) [0..<n])
                    @ [Collector_shutdown]\<rparr>, None)"
      by (rule node_loop_run) (simp_all add: nb cu ui ct crt lo hi fpw0)
    then have "distributed_init_collection_node (job_args jb)
         = Some (\<lparr>ns_i = n, ns_frames = int n * fpw,
                   ns_trace = Node_init_process_group (rank (job_args jb)) (world_size (job_args jb))
                     # concat (map (node_round_events c) [0..<n]) @ [Collector_shutdown]\<rparr>, None)"
      using n0 by (simp add: distributed_init_collection_node_def c nb)
    with c cu cw show ?thesis by blast
  qed
  have "numel (the (tensordict_out self))
          = numel (buffer_layout (hd (create_env_fn a)) (arg_policy a) nw fpw (arg_storing_device a))"
    by (simp add: ic(10))
  also have "\<dots> = int nw * fpw"
    by (rule numel_buffer_layout [OF nw0 fpw0])
  also have "\<dots> = arg_frames_per_batch a"
    by (simp add: fpb_eq)
  finally have B: "numel (the (tensordict_out self)) = arg_frames_per_batch a" .
  have len: "length (single_tds self) = nw"
    by (simp add: ic(11) unbind0_buffer_layout)
  have g: "gather self j = Some (Inr (receive_events self))" if j: "j < n" for j
  proof -
    have "delivered self j i" if i: "i < nw" for i
    proof -
      have "jobs self ! i \<in> set (jobs self)" using i ic(12) by simp
      from workers [OF this] collect_in_rounds [OF j] i ic(12) show ?thesis
        by (auto simp: delivered_def)
    qed
    then show ?thesis
      by (simp add: gather_def len ic(2) list_all_iff)
  qed
  have o: "tensordict_out self = Some (the (tensordict_out self))"
    by (simp add: ic(10))
  have ui': "update_interval self \<noteq> 0"
    using ui by (simp add: ic(7))
  have lo'': "(int n - 1) * numel (the (tensordict_out self)) < total_frames self"
    using lo' by (simp only: B ic(3))
  have hi'': "total_frames self \<le> int n * numel (the (tensordict_out self))"
    using hi' by (simp only: B ic(3))
  have B0: "0 < numel (the (tensordict_out self))"
    using fpb by (simp only: B)
  have "iterator_dist self \<lparr>it_total_frames = int 0 * numel (the (tensordict_out self)),
           it_j = int 0 - 1, it_yielded = []\<rparr>
       = Some (\<lparr>it_total_frames = int n * numel (the (tensordict_out self)), it_j = int n - 1,
                 it_yielded = [] @ map (expected_round self) [0..<n]\<rparr>, None)"
    by (rule iterator_dist_run [OF ui' o lo'' hi'' B0 g]) simp_all
  then have "iterator self
       = Some (\<lparr>it_total_frames = int n * arg_frames_per_batch a, it_j = int n - 1,
                 it_yielded = map (expected_round self) [0..<n]\<rparr>, None)"
    by (simp add: iterator_def B)
  with n0 lo' hi' workers show ?thesis
    unfolding fpw_def nw_def by blast
qed

section \<open>The number of batches\<close>

lemma rounds_of_exact_budget:
  fixes fpb total :: int and n :: nat
  assumes "0 < fpb" and "fpb dvd total"
    and "(int n - 1) * fpb < total" and "total \<le> int n * fpb"
  shows "total div fpb = int n" and "int n * fpb = total"
proof -
  from assms(2) obtain q where q: "total = q * fpb" by (metis dvdE mult.commute)
  from assms(1,3) have "int n - 1 < q" by (simp add: q mult_less_cancel_right)
  moreover from assms(1,4) have "q \<le> int n" by (simp add: q mult_le_cancel_right)
  ultimately have "q = int n" by simp
  with q assms(1) show "total div fpb = int n" and "int n * fpb = total" by simp_all
qed

lemma expected_round_simps [simp]:
  "round_j (expected_round self N) = int N"
  "round_data (expected_round self N) = clone (the (tensordict_out self))"
  "round_total_frames (expected_round self N) = (int N + 1) * numel (the (tensordict_out self))"
  "round_batches_since_weight_update (expected_round self N) = batches_since_weight_update self"
  "round_events (expected_round self N) =
     (if int N mod update_interval self = 0 then broadcast_events self else [])
     @ receive_events self"
  by (simp_all add: expected_round_def)

lemma clone_lock_buffer_layout [simp]:
  "clone (lock (buffer_layout e p nw fpw dev)) = buffer_layout e p nw fpw dev"
  by (simp add: clone_def lock_def buffer_layout_def)

text \<open>
  C1.  For a constructed coordinator (so the number of workers divides both frame counts
  and the frame budget is positive) with a positive \<^verbatim>\<open>frames_per_batch\<close> that divides
  \<^verbatim>\<open>total_frames\<close> and a non-zero update interval, the iteration runs to its end without an
  error, yields exactly \<^verbatim>\<open>total_frames / frames_per_batch\<close> batches, each of
  \<^verbatim>\<open>frames_per_batch\<close> frames with batch size
  \<^verbatim>\<open>[num_workers, frames_per_batch / num_workers]\<close>, and the running total after the last
  batch is \<^verbatim>\<open>total_frames\<close>.
\<close>

theorem iterator_yields_budget:
  assumes "DistributedSyncDataCollector_init a w = (Inr self, w')"
    and "arg_update_interval a \<noteq> 0"
    and "0 < arg_frames_per_batch a"
    and "arg_frames_per_batch a dvd arg_total_frames a"
  shows "\<exists>s. iterator self = Some (s, None)
           \<and> int (length (it_yielded s)) = arg_total_frames a div arg_frames_per_batch a
           \<and> (\<forall>r \<in> set (it_yielded s).
                 numel (round_data r) = arg_frames_per_batch a
                 \<and> batch_size (round_data r)
                     = [length (create_env_fn a),
                        nat (arg_frames_per_batch a div int (length (create_env_fn a)))])
           \<and> it_yielded s \<noteq> []
           \<and> round_total_frames (last (it_yielded s)) = arg_total_frames a
           \<and> it_total_frames s = arg_total_frames a"
proof -
  from system_run [OF assms(1-3)] obtain n where n0: "0 < n"
    and lo: "(int n - 1) * arg_frames_per_batch a < arg_total_frames a"
    and hi: "arg_total_frames a \<le> int n * arg_frames_per_batch a"
    and it: "iterator self
              = Some (\<lparr>it_total_frames = int n * arg_frames_per_batch a, it_j = int n - 1,
                        it_yielded = map (expected_round self) [0..<n]\<rparr>, None)"
    by blast
  note ex = rounds_of_exact_budget [OF assms(3,4) lo hi]
  note ic = init_collector [OF assms(1)]
  have nw0: "0 < length (create_env_fn a)" using ic(1) by simp
  have "arg_frames_per_batch a div int (length (create_env_fn a)) * int (length (create_env_fn a))
          = arg_frames_per_batch a"
    using ic(6) by (simp only: div_mult_eq_iff_mod)
  then have fe: "int (length (create_env_fn a))
          * (arg_frames_per_batch a div int (length (create_env_fn a))) = arg_frames_per_batch a"
    by (simp add: mult.commute)
  then have "0 < int (length (create_env_fn a))
          * (arg_frames_per_batch a div int (length (create_env_fn a)))"
    using assms(3) by simp
  then have fpw0: "0 < arg_frames_per_batch a div int (length (create_env_fn a))"
    using nw0 by (simp add: zero_less_mult_iff)
  have B: "numel (the (tensordict_out self)) = arg_frames_per_batch a"
    using numel_buffer_layout [OF nw0 fpw0] by (simp add: ic(10) fe)
  have bs: "batch_size (clone (the (tensordict_out self)))
              = [length (create_env_fn a),
                 nat (arg_frames_per_batch a div int (length (create_env_fn a)))]"
    by (simp add: ic(10)) (simp add: buffer_layout_def)
  let ?s = "\<lparr>it_total_frames = int n * arg_frames_per_batch a, it_j = int n - 1,
             it_yielded = map (expected_round self) [0..<n]\<rparr>"
  have 1: "int (length (it_yielded ?s)) = arg_total_frames a div arg_frames_per_batch a"
    by (simp add: ex(1))
  have 2: "\<forall>r \<in> set (it_yielded ?s).
                 numel (round_data r) = arg_frames_per_batch a
                 \<and> batch_size (round_data r)
                     = [length (create_env_fn a),
                        nat (arg_frames_per_batch a div int (length (create_env_fn a)))]"
    by (auto simp: B bs)
  have 3: "it_yielded ?s \<noteq> []" using n0 by simp
  have "last (map (expected_round self) [0..<n]) = expected_round self (n - 1)"
    using n0 by (simp add: last_map)
  then have 4: "round_total_frames (last (it_yielded ?s)) = arg_total_frames a"
    using n0 ex(2) by (simp add: B of_nat_diff)
  have 5: "it_total_frames ?s = arg_total_frames a"
    by (simp add: ex(2))
  from it 1 2 3 4 5 show ?thesis by blast
qed

theorem iterator_yields_budget_witness:
  "\<exists>s. iterator example_collector = Some (s, None)
      \<and> length (it_yielded s) = 4
      \<and> it_total_frames s = 16"
proof -
  from iterator_yields_budget [OF example_init] obtain s where
    "iterator example_collector = Some (s, None)"
    and "int (length (it_yielded s)) = arg_total_frames example_args div arg_frames_per_batch example_args"
    and "it_total_frames s = arg_total_frames example_args"
    by (auto simp: example_args_def)
  then show ?thesis by (auto simp: example_args_def)
qed

section \<open>The schedule of the parameter broadcast\<close>

lemma receive_events_no_send:
  "ev \<in> set (receive_events self) \<Longrightarrow> ev \<noteq> Isend_weights r k"
  by (auto simp: receive_events_def)

text \<open>
  C3.  For a constructed coordinator with positive \<^verbatim>\<open>frames_per_batch\<close> and a non-zero update
  interval, the iteration and every worker run to their end, through the same number of
  rounds.  In round \<open>N\<close> the coordinator's calls are: when \<open>N\<close> is a multiple of the update
  interval, one send of every parameter to every rank from 1 to \<open>num_workers\<close>, in this
  order and before anything else; then the receives of the round, among which there is no
  parameter send.  Around its batch \<open>N\<close> a worker's calls are: when \<open>N\<close> is a multiple of the
  update interval, one receive of every parameter; then the production of batch \<open>N\<close>;
  then its sends.  In the other rounds there is neither a send nor a receive of
  parameters.
\<close>

theorem parameter_broadcast_schedule:
  assumes "DistributedSyncDataCollector_init a w = (Inr self, w')"
    and "arg_update_interval a \<noteq> 0"
    and "0 < arg_frames_per_batch a"
  shows "\<exists>n s. 0 < n
      \<and> iterator self = Some (s, None)
      \<and> length (it_yielded s) = n
      \<and> (\<forall>N < n.
            round_j (it_yielded s ! N) = int N
            \<and> round_events (it_yielded s ! N)
                = (if int N mod arg_update_interval a = 0
                   then concat (map (\<lambda>i. map (Isend_weights (i + 1)) (keys (policy_weights self)))
                                  [0..<length (create_env_fn a)])
                   else [])
                  @ receive_events self)
      \<and> (\<forall>ev \<in> set (receive_events self). \<forall>r k. ev \<noteq> Isend_weights r k)
      \<and> (\<forall>jb \<in> set (jobs self). \<exists>t c.
            node_setup (job_args jb) = Inr c
            \<and> distributed_init_collection_node (job_args jb) = Some (t, None)
            \<and> ns_trace t
                = Node_init_process_group (rank (job_args jb)) (world_size (job_args jb))
                  # concat (map (\<lambda>N. (if int N mod arg_update_interval a = 0
                                       then map Irecv_weights (keys (policy_weights self))
                                       else [])
                                      @ Collect N # map (Isend_data N) (keys (node_batch c)))
                              [0..<n])
                  @ [Collector_shutdown])"
proof -
  from system_run [OF assms] obtain n where n0: "0 < n"
    and it: "iterator self
              = Some (\<lparr>it_total_frames = int n * arg_frames_per_batch a, it_j = int n - 1,
                        it_yielded = map (expected_round self) [0..<n]\<rparr>, None)"
    and wk: "\<forall>jb \<in> set (jobs self). \<exists>c.
                node_setup (job_args jb) = Inr c
                \<and> nc_update_interval c = arg_update_interval a
                \<and> nc_policy_weights c = get_policy_weights (arg_policy a)
                \<and> distributed_init_collection_node (job_args jb)
                    = Some (\<lparr>ns_i = n,
                              ns_frames = int n * (arg_frames_per_batch a div int (length (create_env_fn a))),
                              ns_trace = Node_init_process_group (rank (job_args jb)) (world_size (job_args jb))
                                # concat (map (node_round_events c) [0..<n]) @ [Collector_shutdown]\<rparr>,
                            None)"
    by blast
  note ic = init_collector [OF assms(1)]
  let ?s = "\<lparr>it_total_frames = int n * arg_frames_per_batch a, it_j = int n - 1,
             it_yielded = map (expected_round self) [0..<n]\<rparr>"
  have 1: "length (it_yielded ?s) = n" by simp
  have 2: "\<forall>N < n.
            round_j (it_yielded ?s ! N) = int N
            \<and> round_events (it_yielded ?s ! N)
                = (if int N mod arg_update_interval a = 0
                   then concat (map (\<lambda>i. map (Isend_weights (i + 1)) (keys (policy_weights self)))
                                  [0..<length (create_env_fn a)])
                   else [])
                  @ receive_events self"
    by (simp add: ic(7) broadcast_events_def ic(2))
  have 3: "\<forall>ev \<in> set (receive_events self). \<forall>r k. ev \<noteq> Isend_weights r k"
    using receive_events_no_send by blast
  have 4: "\<exists>t c.
            node_setup (job_args jb) = Inr c
            \<and> distributed_init_collection_node (job_args jb) = Some (t, None)
            \<and> ns_trace t
                = Node_init_process_group (rank (job_args jb)) (world_size (job_args jb))
                  # concat (map (\<lambda>N. (if int N mod arg_update_interval a = 0
                                       then map Irecv_weights (keys (policy_weights self))
                                       else [])
                                      @ Collect N # map (Isend_data N) (keys (node_batch c)))
                              [0..<n])
                  @ [Collector_shutdown]"
    if jb: "jb \<in> set (jobs self)" for jb
  proof -
    from wk jb obtain c where c: "node_setup (job_args jb) = Inr c"
      and cu: "nc_update_interval c = arg_update_interval a"
      and cw: "nc_policy_weights c = get_policy_weights (arg_policy a)"
      and run: "distributed_init_collection_node (job_args jb)
                  = Some (\<lparr>ns_i = n,
                            ns_frames = int n * (arg_frames_per_batch a div int (length (create_env_fn a))),
                            ns_trace = Node_init_process_group (rank (job_args jb)) (world_size (job_args jb))
                              # concat (map (node_round_events c) [0..<n]) @ [Collector_shutdown]\<rparr>,
                          None)"
      by blast
    have "node_round_events c
            = (\<lambda>N. (if int N mod arg_update_interval a = 0
                     then map Irecv_weights (keys (policy_weights self)) else [])
                    @ Collect N # map (Isend_data N) (keys (node_batch c)))"
      by (rule ext) (simp add: node_round_events_def cu cw ic(8))
    with c run show ?thesis by simp
  qed
  from n0 it 1 2 3 4 show ?thesis by blast
qed

theorem parameter_broadcast_schedule_witness:
  "\<exists>s. iterator example_collector = Some (s, None)
      \<and> it_yielded s \<noteq> []
      \<and> round_events (hd (it_yielded s))
          = [Isend_weights 1 ''weight'', Isend_weights 2 ''weight'']
            @ receive_events example_collector"
proof -
  from parameter_broadcast_schedule [OF example_init] obtain n s where
    n: "0 < n" and it: "iterator example_collector = Some (s, None)"
    and len: "length (it_yielded s) = n"
    and ev: "\<forall>N < n. round_j (it_yielded s ! N) = int N
            \<and> round_events (it_yielded s ! N)
                = (if int N mod arg_update_interval example_args = 0
                   then concat (map (\<lambda>i. map (Isend_weights (i + 1)) (keys (policy_weights example_collector)))
                                  [0..<length (create_env_fn example_args)])
                   else [])
                  @ receive_events example_collector"
    by (auto simp: example_args_def)
  from n len have ne: "it_yielded s \<noteq> []" by auto
  from ev n have "round_events (it_yielded s ! 0)
      = [Isend_weights 1 ''weight'', Isend_weights 2 ''weight''] @ receive_events example_collector"
    by (simp add: example_args_def example_collector_def keys_def upt_rec)
  with ne it show ?thesis by (auto simp: hd_conv_nth)
qed

section \<open>Invariants of the yielded rounds\<close>

lemma gather_Inr: "gather self j = Some (Inr evs) \<Longrightarrow> evs = receive_events self"
  by (simp add: gather_def split: if_splits)

lemma iterator_step_yielded:
  "iterator_step self s = Stop s' e \<Longrightarrow> it_yielded s' = it_yielded s"
  "iterator_step self s = Continue s' \<Longrightarrow>
     \<exists>r. it_yielded s' = it_yielded s @ [r]
        \<and> round_batches_since_weight_update r = batches_since_weight_update self
        \<and> round_data r = clone (the (tensordict_out self))
        \<and> (round_events r = receive_events self
           \<or> round_events r = broadcast_events self @ receive_events self)"
proof -
  assume "iterator_step self s = Stop s' e"
  then show "it_yielded s' = it_yielded s"
    by (auto simp: iterator_step_def Let_def split: if_splits option.splits sum.splits)
next
  assume c: "iterator_step self s = Continue s'"
  then obtain evs out where g: "gather self (nat (it_j s + 1)) = Some (Inr evs)"
    and o: "tensordict_out self = Some out"
    and lt: "it_total_frames s < total_frames self"
    and ui: "update_interval self \<noteq> 0"
    by (auto simp: iterator_step_def Let_def split: if_splits option.splits sum.splits)
  from gather_Inr [OF g] g have g': "gather self (nat (it_j s + 1)) = Some (Inr (receive_events self))"
    by simp
  from c show "\<exists>r. it_yielded s' = it_yielded s @ [r]
        \<and> round_batches_since_weight_update r = batches_since_weight_update self
        \<and> round_data r = clone (the (tensordict_out self))
        \<and> (round_events r = receive_events self
           \<or> round_events r = broadcast_events self @ receive_events self)"
    unfolding iterator_step_continue [OF lt ui g' o]
    by (auto simp: o)
qed

lemma iterator_dist_rounds:
  assumes "iterator_dist self s = Some res"
  shows "list_all (round_ok self) (it_yielded s) \<longrightarrow> list_all (round_ok self) (it_yielded (fst res))"
proof (rule iterator_dist.raw_induct
    [where P = "\<lambda>self s res. list_all (round_ok self) (it_yielded s)
                  \<longrightarrow> list_all (round_ok self) (it_yielded (fst res))", OF _ assms])
  fix f self s res
  assume IH: "\<And>self s res. f self s = Some res \<Longrightarrow>
       list_all (round_ok self) (it_yielded s) \<longrightarrow> list_all (round_ok self) (it_yielded (fst res))"
    and step: "(case iterator_step self s of Continue s' \<Rightarrow> f self s'
                | Stop s' e \<Rightarrow> Some (s', e) | Blocked \<Rightarrow> None) = Some res"
  show "list_all (round_ok self) (it_yielded s) \<longrightarrow> list_all (round_ok self) (it_yielded (fst res))"
  proof (cases "iterator_step self s")
    case (Continue s1)
    with step have f: "f self s1 = Some res" by simp
    from iterator_step_yielded(2) [OF Continue] obtain r where
      y: "it_yielded s1 = it_yielded s @ [r]" and r: "round_ok self r"
      unfolding round_ok_def by blast
    show ?thesis
    proof
      assume "list_all (round_ok self) (it_yielded s)"
      with y r have "list_all (round_ok self) (it_yielded s1)" by simp
      with IH [OF f] show "list_all (round_ok self) (it_yielded (fst res))" by blast
    qed
  next
    case (Stop s1 e)
    with step have "res = (s1, e)" by simp
    with iterator_step_yielded(1) [OF Stop] show ?thesis by simp
  next
    case Blocked
    with step show ?thesis by simp
  qed
qed

lemma iterator_rounds:
  assumes "iterator self = Some (s, e)" and "r \<in> set (it_yielded s)"
  shows "round_batches_since_weight_update r = batches_since_weight_update self"
    and "round_data r = clone (the (tensordict_out self))"
    and "round_events r = receive_events self
         \<or> round_events r = broadcast_events self @ receive_events self"
proof -
  from assms(1) have "iterator_dist self \<lparr>it_total_frames = 0, it_j = - 1, it_yielded = []\<rparr>
      = Some (s, e)"
    by (simp only: iterator_def)
  from iterator_dist_rounds [OF this] have "list_all (round_ok self) (it_yielded s)"
    by simp
  with assms(2) have ok: "round_ok self r"
    by (simp add: list_all_iff)
  from ok show "round_batches_since_weight_update r = batches_since_weight_update self"
    by (simp add: round_ok_def)
  from ok show "round_data r = clone (the (tensordict_out self))"
    by (simp add: round_ok_def)
  from ok show "round_events r = receive_events self
         \<or> round_events r = broadcast_events self @ receive_events self"
    by (simp add: round_ok_def)
qed

lemma example_iterator:
  "iterator example_collector
     = Some (\<lparr>it_total_frames = 16, it_j = 3,
               it_yielded = map (expected_round example_collector) [0..<4]\<rparr>, None)"
proof -
  have u: "arg_update_interval example_args \<noteq> 0" and f: "0 < arg_frames_per_batch example_args"
    by (simp_all add: example_args_def)
  have v: "arg_frames_per_batch example_args = 4" "arg_total_frames example_args = 16"
    by (simp_all add: example_args_def)
  from system_run [OF example_init u f] obtain n where
    lo: "(int n - 1) * arg_frames_per_batch example_args < arg_total_frames example_args"
    and hi: "arg_total_frames example_args \<le> int n * arg_frames_per_batch example_args"
    and it: "iterator example_collector
              = Some (\<lparr>it_total_frames = int n * arg_frames_per_batch example_args, it_j = int n - 1,
                        it_yielded = map (expected_round example_collector) [0..<n]\<rparr>, None)"
    by blast
  from lo hi have "n = 4" unfolding v by presburger
  with it show ?thesis unfolding v by simp
qed

lemma upt_0_4: "[0..<4] = [0, 1, 2, 3]"
  by code_simp

section \<open>The per-worker staleness counter\<close>

text \<open>
  C9 (as amended).  The list \<^verbatim>\<open>_batches_since_weight_update\<close> of a constructed coordinator
  has one entry for each worker, every entry is 0, and the iteration never changes it: at
  every yield the list is still all zeros.
\<close>

theorem staleness_counter_stays_zero:
  assumes "DistributedSyncDataCollector_init a w = (Inr self, w')"
  shows "batches_since_weight_update self = replicate (length (create_env_fn a)) 0
       \<and> length (batches_since_weight_update self) = nat (num_workers self)
       \<and> (\<forall>s e. iterator self = Some (s, e) \<longrightarrow>
             (\<forall>r \<in> set (it_yielded s).
                round_batches_since_weight_update r = replicate (length (create_env_fn a)) 0))"
proof (intro conjI allI impI ballI)
  show z: "batches_since_weight_update self = replicate (length (create_env_fn a)) 0"
    by (rule init_collector(9) [OF assms])
  show "length (batches_since_weight_update self) = nat (num_workers self)"
    by (simp add: z init_collector(2) [OF assms])
  fix s e r
  assume "iterator self = Some (s, e)" and "r \<in> set (it_yielded s)"
  from iterator_rounds(1) [OF this] z
  show "round_batches_since_weight_update r = replicate (length (create_env_fn a)) 0"
    by simp
qed

theorem staleness_counter_stays_zero_witness:
  "batches_since_weight_update example_collector = [0, 0]
   \<and> (\<exists>s. iterator example_collector = Some (s, None)
          \<and> map round_batches_since_weight_update (it_yielded s) = [[0, 0], [0, 0], [0, 0], [0, 0]])"
proof -
  from staleness_counter_stays_zero [OF example_init]
  have "batches_since_weight_update example_collector = [0, 0]"
    by (simp add: example_args_def numeral_2_eq_2)
  then show ?thesis
    by (simp add: example_iterator upt_0_4)
qed

text \<open>
  C9 (as stated) asks that after any round the entry of a worker is the number of rounds
  completed since its last parameter broadcast.  In the example the parameters are sent in
  rounds 0 and 2; when rounds 0 and 1 are completed, one round has been completed since
  the broadcast, and the list is still all zeros.
\<close>

theorem staleness_counter_counterexample:
  "\<exists>s. iterator example_collector = Some (s, None)
      \<and> rounds_since_broadcast (update_interval example_collector) (take 2 (it_yielded s)) = 1
      \<and> round_batches_since_weight_update (it_yielded s ! 1) = [0, 0]"
  by (simp add: example_iterator upt_0_4 rounds_since_broadcast_def)
     (simp add: example_collector_def)

section \<open>The layout of the output buffer\<close>

lemma keys_unbind0_buffer_layout:
  assumes "i < nw"
  shows "keys (unbind0 (buffer_layout e p nw fpw dev) ! i) = map fst (env_fields e @ policy_out p)"
  using assms
  by (simp add: unbind0_buffer_layout keys_def comp_def case_prod_beta)

lemma receive_events_layout:
  assumes "single_tds self = unbind0 (buffer_layout e p nw fpw dev)"
    and "num_workers self = int nw"
  shows "receive_events self
     = concat (map (\<lambda>i. map (Irecv_data i (i + 1)) (map fst (env_fields e @ policy_out p))) [0..<nw])
       @ concat (map (\<lambda>i. map (Wait_data i) (map fst (env_fields e @ policy_out p))) [0..<nw])"
proof -
  have f1: "map (\<lambda>i. map (Irecv_data i (i + 1)) (keys (single_tds self ! i))) [0..<nw]
      = map (\<lambda>i. map (Irecv_data i (i + 1)) (map fst (env_fields e @ policy_out p))) [0..<nw]"
    by (rule map_cong) (simp_all add: assms(1) keys_unbind0_buffer_layout)
  have f2: "map (\<lambda>i. map (Wait_data i) (keys (single_tds self ! i))) [0..<nw]
      = map (\<lambda>i. map (Wait_data i) (map fst (env_fields e @ policy_out p))) [0..<nw]"
    by (rule map_cong) (simp_all add: assms(1) keys_unbind0_buffer_layout)
  show ?thesis
    unfolding receive_events_def assms(2) nat_int
    by (simp only: f1 f2)
qed

text \<open>
  C10.  The output buffer of a constructed coordinator is the locked container whose
  layout is that of one rollout of the first environment constructor with the policy,
  expanded along a new leading dimension of size \<open>num_workers\<close>: no other entry of the list
  of environment constructors occurs in it.  Every batch that the iteration yields,
  however the iteration ends, has this same batch size and these same fields, and the
  receives of every round go, for each worker index \<open>i\<close>, into the slice \<open>i\<close> of the buffer
  from rank \<open>i + 1\<close>, one for each field of the buffer.
\<close>

theorem buffer_layout_fixed:
  assumes "DistributedSyncDataCollector_init a w = (Inr self, w')"
  shows "tensordict_out self =
           Some (lock (buffer_layout (hd (create_env_fn a)) (arg_policy a)
                   (length (create_env_fn a))
                   (arg_frames_per_batch a div int (length (create_env_fn a)))
                   (arg_storing_device a)))
       \<and> (\<forall>s e. iterator self = Some (s, e) \<longrightarrow>
            (\<forall>r \<in> set (it_yielded s).
               round_data r
                 = buffer_layout (hd (create_env_fn a)) (arg_policy a)
                     (length (create_env_fn a))
                     (arg_frames_per_batch a div int (length (create_env_fn a)))
                     (arg_storing_device a)
               \<and> (\<exists>sends. round_events r = sends @ receive_events self)))
       \<and> receive_events self
           = concat (map (\<lambda>i. map (Irecv_data i (i + 1))
                                 (map fst (env_fields (hd (create_env_fn a)) @ policy_out (arg_policy a))))
                       [0..<length (create_env_fn a)])
             @ concat (map (\<lambda>i. map (Wait_data i)
                                   (map fst (env_fields (hd (create_env_fn a)) @ policy_out (arg_policy a))))
                         [0..<length (create_env_fn a)])"
proof (intro conjI allI impI ballI)
  note ic = init_collector [OF assms]
  show "tensordict_out self =
           Some (lock (buffer_layout (hd (create_env_fn a)) (arg_policy a)
                   (length (create_env_fn a))
                   (arg_frames_per_batch a div int (length (create_env_fn a)))
                   (arg_storing_device a)))"
    by (rule ic(10))
  show "receive_events self
           = concat (map (\<lambda>i. map (Irecv_data i (i + 1))
                                 (map fst (env_fields (hd (create_env_fn a)) @ policy_out (arg_policy a))))
                       [0..<length (create_env_fn a)])
             @ concat (map (\<lambda>i. map (Wait_data i)
                                   (map fst (env_fields (hd (create_env_fn a)) @ policy_out (arg_policy a))))
                         [0..<length (create_env_fn a)])"
    by (rule receive_events_layout [OF ic(11) ic(2)])
  fix s e r
  assume it: "iterator self = Some (s, e)" and r: "r \<in> set (it_yielded s)"
  from iterator_rounds(2) [OF it r]
  show "round_data r
          = buffer_layout (hd (create_env_fn a)) (arg_policy a)
              (length (create_env_fn a))
              (arg_frames_per_batch a div int (length (create_env_fn a)))
              (arg_storing_device a)"
    by (simp add: ic(10))
  from iterator_rounds(3) [OF it r]
  show "\<exists>sends. round_events r = sends @ receive_events self"
    by (metis append_Nil)
qed

theorem buffer_layout_fixed_witness:
  "tensordict_out example_collector
     = Some \<lparr>batch_size = [2, 2],
             entries = [(''observation'', [2, 2, 3]), (''action'', [2, 2, 1])],
             device = ''cpu'', locked = True\<rparr>
   \<and> (\<exists>s. iterator example_collector = Some (s, None)
         \<and> map (batch_size \<circ> round_data) (it_yielded s) = [[2, 2], [2, 2], [2, 2], [2, 2]]
         \<and> map (entries \<circ> round_data) (it_yielded s)
             = replicate 4 [(''observation'', [2, 2, 3]), (''action'', [2, 2, 1])])"
proof -
  from buffer_layout_fixed [OF example_init]
  have "tensordict_out example_collector
     = Some \<lparr>batch_size = [2, 2],
             entries = [(''observation'', [2, 2, 3]), (''action'', [2, 2, 1])],
             device = ''cpu'', locked = True\<rparr>"
    by (simp add: example_collector_def)
  then show ?thesis
    by (simp add: example_iterator upt_0_4 clone_def numeral_eq_Suc)
qed

end
